theory Spec2Isabelle
  imports Complex_Main
begin

section \<open>Data model (model/viewModel.tsx)\<close>

text \<open>
  Language codes are declared \<open>string\<close> in the source (\<open>LanguageDef.code\<close>,
  \<open>LangTranslation.code\<close>, \<open>ViewModel.uiLocale\<close>) and are only ever compared with
  \<open>===\<close>, so they are strings here.
\<close>

record LanguageDef =
  lang_code :: string
  lang_name :: string

record LangTranslation =
  trans_code :: string
  translation :: string

record LangProp =
  prop_name :: string
  prop_translation :: "LangTranslation list"

datatype LabelOptions = both | names | descriptions

record Options =
  dashboards :: bool
  attrFields :: bool
  localOptionSets :: bool
  globalOptionSets :: bool
  forms :: bool
  formTabs :: bool
  formSections :: bool
  formFields :: bool
  relationships :: bool
  labelOptions :: LabelOptions
  exportAllLanguages :: bool

text \<open>
  The part of \<open>Table\<close> the Entities sheet reads, and the part of \<open>OptionSetDef\<close> the
  Booleans sheet reads. \<open>optionValue\<close> is rendered as the text the cell shows.
\<close>

record OptionSetDef =
  os_id :: string
  os_type :: "string option"
  os_isGlobal :: bool
  os_attributeLogicalName :: "string option"
  os_optionValue :: "string option"
  os_langProps :: "LangProp list"

record Table =
  table_id :: string
  logicalName :: string
  langProps :: "LangProp list"
  optionSets :: "OptionSetDef list"

text \<open>
  A worksheet cell is \<open>None\<close> for \<open>null\<close>/\<open>undefined\<close> and otherwise the text
  \<open>String(value)\<close> of the number or text it holds; every read of a cell in the import
  goes through \<open>String\<close> or \<open>Number\<close>. Texts are strings over the characters U+0000 to
  U+00FF. A sheet is its rows in order, the header first; rows and columns are numbered
  from 1 as in the workbook library.
\<close>

type_synonym cell = "string option"
type_synonym row = "cell list"
type_synonym sheet = "row list"

section \<open>Export: output languages (exportTranslations)\<close>

datatype export_error =
    TypeError
  | GetUserLanguageFailed
  | UpdateLanguageFailed string
  | FetchFailure string

text \<open>
  \<open>if (!this.outputLangs.some((ld) => ld.code === this.baseLanguage?.code))
  this.outputLangs.push(this.baseLanguage)\<close>
\<close>

definition push_base :: "LanguageDef list \<Rightarrow> LanguageDef \<Rightarrow> LanguageDef list" where
  "push_base langs base =
     (if list_ex (\<lambda>ld. lang_code ld = lang_code base) langs then langs else langs @ [base])"

text \<open>
  The list chosen by the operator: all languages, or the single selected one. With no
  selected language the array holds \<open>undefined\<close> and \<open>ld.code\<close> raises a TypeError,
  which the export rejects with.
\<close>

definition selected_langs ::
  "Options \<Rightarrow> LanguageDef list \<Rightarrow> LanguageDef option \<Rightarrow> export_error + LanguageDef list" where
  "selected_langs opts allLanguages selectedLanguage =
     (if exportAllLanguages opts then Inr allLanguages
      else (case selectedLanguage of None \<Rightarrow> Inl TypeError | Some l \<Rightarrow> Inr [l]))"

definition outputLangs_of ::
  "Options \<Rightarrow> LanguageDef list \<Rightarrow> LanguageDef option \<Rightarrow> LanguageDef
     \<Rightarrow> export_error + LanguageDef list" where
  "outputLangs_of opts allLanguages selectedLanguage baseLanguage =
     (case selected_langs opts allLanguages selectedLanguage of
        Inl e \<Rightarrow> Inl e
      | Inr langs \<Rightarrow> Inr (push_base langs baseLanguage))"

definition header_row :: "string list \<Rightarrow> LanguageDef list \<Rightarrow> row" where
  "header_row idcols outputLangs = map Some idcols @ map (\<lambda>lang. Some (lang_code lang)) outputLangs"

text \<open>
  Every \<open>addWorksheet\<close>/\<open>addRow\<close> header of an export in which no repository call
  fails, in the order the sheets are created, under the guards of the source.
  \<open>exportRelationships\<close> wraps its body in \<open>new Promise\<close> and, when relationships are
  not exported, returns from the executor without resolving: the export then never gets
  past it, and the sheets after Attributes are not created. \<open>haveDashboards\<close> says
  whether the sweep collected any dashboard (the three dashboard layout sheets are
  created only then).
\<close>

definition export_headers :: "Options \<Rightarrow> bool \<Rightarrow> LanguageDef list \<Rightarrow> (string \<times> row) list" where
  "export_headers opts haveDashboards ls =
     [(''Entities'', header_row [''Entity Id'', ''Entity Logical Name'', ''Type''] ls)]
   @ (if \<not> attrFields opts \<and> \<not> formFields opts then []
      else [(''Attributes'',
             header_row [''Attribute Id'', ''Entity Logical Name'', ''Attribute Logical Name'', ''Type''] ls)])
   @ (if \<not> relationships opts \<or> labelOptions opts = descriptions then []
      else
        [(''Relationships'',
          header_row [''Entity'', ''Relationship Id'', ''Relationship Name'', ''Relationship entity''] ls),
         (''RelationshipsNN'',
          header_row [''Entity'', ''Relationship Id'', ''Relationship Intersect Entity''] ls)]
      @ (if localOptionSets opts \<or> globalOptionSets opts
         then [(''Local OptionSets'',
                header_row [''Attribute Id'', ''Entity Logical Name'', ''Attribute Logical Name'',
                            ''Attribute Type'', ''Value'', ''Type''] ls),
               (''Global OptionSets'',
                header_row [''OptionSet Id'', ''OptionSet Name'', ''Value'', ''Type''] ls)]
         else [])
      @ [(''Booleans'',
          header_row [''Attribute Id'', ''Entity Logical Name'', ''Attribute Logical Name'',
                      ''Attribute Type'', ''Value'', ''Type''] ls),
         (''Views'', header_row [''View Id'', ''Entity Logical Name'', ''View Type'', ''Type''] ls),
         (''Charts'', header_row [''Chart Id'', ''Entity Logical Name'', ''Type''] ls),
         (''Forms'',
          header_row [''Form Unique Id'', ''Form Id'', ''Entity Logical Name'', ''Form Type'', ''Type''] ls),
         (''Forms Tabs'',
          header_row [''Tab Id'', ''Entity Logical Name'', ''Form Name'', ''Form Unique Id'', ''Form Id''] ls),
         (''Forms Sections'',
          header_row [''Section Id'', ''Entity Logical Name'', ''Form Name'', ''Form Unique Id'',
                      ''Form Id'', ''Tab Name''] ls),
         (''Forms Fields'',
          header_row [''Label Id'', ''Entity Logical Name'', ''Form Name'', ''Form Unique Id'', ''Form Id'',
                      ''Tab Name'', ''Section Name'', ''Attribute'', ''Display Name''] ls),
         (''SiteMap Areas'', header_row [''SiteMap Name'', ''SiteMap Id'', ''Area Id'', ''Type''] ls),
         (''SiteMap Groups'',
          header_row [''SiteMap Name'', ''SiteMap Id'', ''Area Id'', ''Group Id'', ''Type''] ls),
         (''SiteMap SubAreas'',
          header_row [''SiteMap Name'', ''SiteMap Id'', ''Area Id'', ''Group Id'', ''SubArea Id'',
                      ''Type''] ls),
         (''Dashboards'', header_row [''Form Unique Id'', ''Form Id'', ''Type''] ls)]
      @ (if dashboards opts \<and> haveDashboards
         then [(''Dashboards Tabs'',
                header_row [''Tab Id'', ''Form Name test'', ''Form Unique Id'', ''Form Id''] ls),
               (''Dashboards Sections'',
                header_row [''Section Id'', ''Form Name'', ''Form Unique Id'', ''Form Id'', ''Tab Name''] ls),
               (''Dashboards Fields'',
                header_row [''Label Id'', ''Form Name'', ''Form Unique Id'', ''Form Id'', ''Tab Name'',
                            ''Section Name''] ls)]
         else []))"

section \<open>Export: the form and dashboard language sweep (exportForms)\<close>

text \<open>The repository calls of \<open>dataverseService\<close> that the modelled code issues.\<close>

datatype dv_call =
    GetUserLanguage
  | UpdateLanguage string string
  | GetForms string string bool
  | GetDashboards string

text \<open>
  The operator's settings held by the repository (\<open>usersettingscollection\<close>) and the
  calls issued so far. \<open>updateLanguage(lang, userId)\<close> writes \<open>lang\<close> to both
  \<open>uilanguageid\<close> and \<open>localeid\<close>.
\<close>

record repo_state =
  uilanguageid :: string
  localeid :: string
  userid :: string
  issued :: "dv_call list"

record sweep_vm =
  vm_uiLocale :: string
  vm_locale :: string
  vm_userId :: string

text \<open>
  \<open>throws c\<close> says that the repository call \<open>c\<close> rejects. A call is recorded as
  issued whether or not it rejects; a rejected update leaves the settings unchanged.
\<close>

definition updateLanguage ::
  "(dv_call \<Rightarrow> bool) \<Rightarrow> string \<Rightarrow> string \<Rightarrow> repo_state \<Rightarrow> export_error option \<times> repo_state" where
  "updateLanguage throws lang userId rs =
     (let rs' = rs\<lparr>issued := issued rs @ [UpdateLanguage lang userId]\<rparr> in
      if throws (UpdateLanguage lang userId) then (Some (UpdateLanguageFailed lang), rs')
      else (None, rs'\<lparr>uilanguageid := lang, localeid := lang\<rparr>))"

text \<open>
  The fetches of one language: \<open>Promise.all\<close> over the selected tables (given here
  by their logical names) starts every \<open>getForms\<close> call and rejects when one of them
  does; the dashboards are fetched only after the forms succeeded.
\<close>

definition fetch_lang ::
  "(dv_call \<Rightarrow> bool) \<Rightarrow> Options \<Rightarrow> string list \<Rightarrow> string \<Rightarrow> LanguageDef \<Rightarrow> LanguageDef
     \<Rightarrow> repo_state \<Rightarrow> export_error option \<times> repo_state" where
  "fetch_lang throws opts tables solutionId base lang rs =
     (let formsExport = (forms opts \<or> formFields opts \<or> formSections opts \<or> formTabs opts);
          formCalls = (if formsExport
                       then map (\<lambda>t. GetForms t (lang_code lang) (lang_code lang = lang_code base)) tables
                       else []);
          rs1 = rs\<lparr>issued := issued rs @ formCalls\<rparr>
      in if list_ex throws formCalls then (Some (FetchFailure (lang_code lang)), rs1)
         else if dashboards opts then
           (let rs2 = rs1\<lparr>issued := issued rs1 @ [GetDashboards solutionId]\<rparr>
            in if throws (GetDashboards solutionId) then (Some (FetchFailure (lang_code lang)), rs2)
               else (None, rs2))
         else (None, rs1))"

text \<open>\<open>for (const lang of this.outputLangs)\<close>, with \<open>currentLang\<close> threaded through.\<close>

fun sweep_loop ::
  "(dv_call \<Rightarrow> bool) \<Rightarrow> Options \<Rightarrow> string list \<Rightarrow> string \<Rightarrow> LanguageDef \<Rightarrow> string
     \<Rightarrow> string \<Rightarrow> LanguageDef list \<Rightarrow> repo_state \<Rightarrow> export_error option \<times> repo_state" where
  "sweep_loop throws opts tables solutionId base userId currentLang [] rs = (None, rs)"
| "sweep_loop throws opts tables solutionId base userId currentLang (lang # rest) rs =
     (case (if currentLang \<noteq> lang_code lang
            then updateLanguage throws (lang_code lang) userId rs else (None, rs)) of
        (Some e, rs1) \<Rightarrow> (Some e, rs1)
      | (None, rs1) \<Rightarrow>
          (case fetch_lang throws opts tables solutionId base lang rs1 of
             (Some e, rs2) \<Rightarrow> (Some e, rs2)
           | (None, rs2) \<Rightarrow>
               sweep_loop throws opts tables solutionId base userId (lang_code lang) rest rs2))"

text \<open>
  \<open>exportForms\<close> up to and including \<open>"Reverting language..."\<close>. There is no
  \<open>try\<close>/\<open>finally\<close> in the source: a rejected \<open>await\<close> leaves the function at once,
  so every error branch returns the state as it is at that point.
\<close>

definition exportForms_sweep ::
  "(dv_call \<Rightarrow> bool) \<Rightarrow> Options \<Rightarrow> string list \<Rightarrow> string \<Rightarrow> LanguageDef \<Rightarrow> LanguageDef list
     \<Rightarrow> sweep_vm \<Rightarrow> repo_state \<Rightarrow> export_error option \<times> sweep_vm \<times> repo_state" where
  "exportForms_sweep throws opts tables solutionId base outputLangs vm rs =
     (let formsExport = (forms opts \<or> formFields opts \<or> formSections opts \<or> formTabs opts) in
      if formsExport \<or> dashboards opts then
        (let rs0 = rs\<lparr>issued := issued rs @ [GetUserLanguage]\<rparr> in
         if throws GetUserLanguage then (Some GetUserLanguageFailed, vm, rs0)
         else
           (let vm1 = vm\<lparr>vm_uiLocale := uilanguageid rs0, vm_locale := localeid rs0,
                        vm_userId := userid rs0\<rparr>
            in case sweep_loop throws opts tables solutionId base (vm_userId vm1)
                      (vm_uiLocale vm1) outputLangs rs0 of
                 (Some e, rs1) \<Rightarrow> (Some e, vm1, rs1)
               | (None, rs1) \<Rightarrow>
                   (case updateLanguage throws (vm_uiLocale vm1) (vm_userId vm1) rs1 of
                      (r, rs2) \<Rightarrow> (r, vm1, rs2))))
      else
        (case updateLanguage throws (vm_uiLocale vm) (vm_userId vm) rs of
           (r, rs2) \<Rightarrow> (r, vm, rs2)))"

section \<open>Export: sheet projection (exportTableInfo, exportBooleans)\<close>

definition braces :: "string \<Rightarrow> string" where
  "braces s = ''{'' @ s @ ''}''"

text \<open>The label-qualifier filter of the Entities sheet.\<close>

definition entity_langProps :: "Options \<Rightarrow> Table \<Rightarrow> LangProp list" where
  "entity_langProps opts t =
     (case labelOptions opts of
        both \<Rightarrow> langProps t
      | names \<Rightarrow> filter (\<lambda>lp. prop_name lp = ''DisplayCollectionName'' \<or> prop_name lp = ''DisplayName'')
                   (langProps t)
      | descriptions \<Rightarrow> filter (\<lambda>lp. prop_name lp = ''Description'') (langProps t))"

text \<open>
  \<open>[`{${table.id}}`, table.logicalName, langProp.name,
     ...langProp.translation.map((trans) => trans.translation)]\<close>:
  the translations are laid out in the order of the translation list.
\<close>

definition entity_row :: "Table \<Rightarrow> LangProp \<Rightarrow> row" where
  "entity_row t lp =
     [Some (braces (table_id t)), Some (logicalName t), Some (prop_name lp)]
     @ map (\<lambda>tr. Some (translation tr)) (prop_translation lp)"

text \<open>
  The Entities sheet, for tables whose metadata has been fetched (\<open>getTableMeta\<close>
  fills \<open>langProps\<close> from the repository's \<open>LocalizedLabels\<close>, in the repository's order).
\<close>

definition exportTableInfo :: "Options \<Rightarrow> LanguageDef list \<Rightarrow> Table list \<Rightarrow> sheet" where
  "exportTableInfo opts outputLangs selectedTables =
     header_row [''Entity Id'', ''Entity Logical Name'', ''Type''] outputLangs
     # concat (map (\<lambda>t. map (entity_row t) (entity_langProps opts t)) selectedTables)"

definition optionset_langProps :: "Options \<Rightarrow> OptionSetDef \<Rightarrow> LangProp list" where
  "optionset_langProps opts os =
     filter (\<lambda>lp. labelOptions opts = both
                 \<or> (labelOptions opts = names \<and> prop_name lp = ''Label'')
                 \<or> (labelOptions opts = descriptions \<and> prop_name lp = ''Description''))
       (os_langProps os)"

text \<open>
  \<open>...this.outputLangs.map((lang) => { const trans = langProp.translation.find((t) =>
  t.code === lang.code); return trans ? trans.translation : ""; })\<close>
\<close>

definition lang_cell :: "LangProp \<Rightarrow> LanguageDef \<Rightarrow> cell" where
  "lang_cell lp lang =
     (case find (\<lambda>t. trans_code t = lang_code lang) (prop_translation lp) of
        Some tr \<Rightarrow> Some (translation tr)
      | None \<Rightarrow> Some [])"

definition boolean_row :: "LanguageDef list \<Rightarrow> Table \<Rightarrow> OptionSetDef \<Rightarrow> LangProp \<Rightarrow> row" where
  "boolean_row outputLangs t os lp =
     [Some (braces (os_id os)), Some (logicalName t), os_attributeLogicalName os, os_type os,
      os_optionValue os, Some (prop_name lp)]
     @ map (lang_cell lp) outputLangs"

definition exportBooleans :: "Options \<Rightarrow> LanguageDef list \<Rightarrow> Table list \<Rightarrow> sheet" where
  "exportBooleans opts outputLangs selectedTables =
     header_row [''Attribute Id'', ''Entity Logical Name'', ''Attribute Logical Name'',
                 ''Attribute Type'', ''Value'', ''Type''] outputLangs
     # concat (map (\<lambda>t.
         concat (map (\<lambda>os. map (boolean_row outputLangs t os) (optionset_langProps opts os))
                   (filter (\<lambda>os. os_type os = Some ''Boolean'') (optionSets t))))
         selectedTables)"

section \<open>Import: reading a sheet\<close>

text \<open>
  \<open>String.prototype.trim\<close>. Among the characters U+0000 to U+00FF the white space and
  line terminators it strips are tab, line feed, vertical tab, form feed, carriage
  return, space and the no-break space U+00A0.
\<close>

definition is_ws :: "char \<Rightarrow> bool" where
  "is_ws c \<longleftrightarrow> c = CHR '' '' \<or> c = CHR 0x09 \<or> c = CHR 0x0A \<or> c = CHR 0x0B \<or> c = CHR 0x0C
     \<or> c = CHR 0x0D \<or> c = CHR 0xA0"

definition trim :: "string \<Rightarrow> string" where
  "trim s = rev (dropWhile is_ws (rev (dropWhile is_ws s)))"

text \<open>
  A JavaScript number: \<open>NaN\<close>, a finite value, or one of the infinities. The finite
  values of the language, the binary64 numbers, are rationals.
\<close>

datatype jsnum = NaN | Num rat | PosInfinity | NegInfinity

text \<open>
  The two conversions of the language that the import applies to header cells:
  \<open>Number(text)\<close> and \<open>String(number)\<close>, the latter also being the property key under
  which \<open>labels[lcid] = ...\<close> stores a value. They are not code of this repository:
  every importer takes them as the parameter \<open>js\<close>, and the theorems that are not about
  a worked example hold for every such pair of functions.
\<close>

record builtins =
  js_Number :: "string \<Rightarrow> jsnum"
  js_String :: "jsnum \<Rightarrow> string"

text \<open>\<open>!isNaN(num) && num > 1000\<close>\<close>

definition exceeds_1000 :: "jsnum \<Rightarrow> bool" where
  "exceeds_1000 num = (case num of Num q \<Rightarrow> q > 1000 | PosInfinity \<Rightarrow> True | _ \<Rightarrow> False)"

text \<open>
  Decimal digits, for the counters the log prints and for the keys that are array
  indices.
\<close>

definition digit_of :: "char \<Rightarrow> nat option" where
  "digit_of c =
     (let n = (of_char c :: nat) in if 48 \<le> n \<and> n \<le> 57 then Some (n - 48) else None)"

fun digits_value :: "nat \<Rightarrow> string \<Rightarrow> nat option" where
  "digits_value acc [] = Some acc"
| "digits_value acc (c # cs) =
     (case digit_of c of None \<Rightarrow> None | Some d \<Rightarrow> digits_value (10 * acc + d) cs)"

definition digit_char :: "nat \<Rightarrow> char" where
  "digit_char d = char_of (48 + d)"

function show_nat :: "nat \<Rightarrow> string" where
  "show_nat n = (if n < 10 then [digit_char n] else show_nat (n div 10) @ [digit_char (n mod 10)])"
  by pat_completeness auto
termination
  by (relation "measure id") auto

declare show_nat.simps [simp del]

text \<open>
  The worked examples run on the conversions as ECMA-262 specifies them, on texts over
  the characters U+0000 to U+00FF: \<open>StringToNumber\<close> for \<open>Number(text)\<close> and
  \<open>Number::toString\<close> in radix 10 for \<open>String(number)\<close>. A number is held as the
  rational it denotes; the two zeros are not told apart, which neither \<open>String\<close> nor
  \<open>num > 1000\<close> does.
\<close>

function ipow :: "int \<Rightarrow> int \<Rightarrow> int" where
  "ipow b e = (if e \<le> 0 then 1 else b * ipow b (e - 1))"
  by pat_completeness auto
termination
  by (relation "measure (\<lambda>(b, e). nat e)") auto

declare ipow.simps [simp del]

function bit_length :: "int \<Rightarrow> int" where
  "bit_length n = (if n \<le> 0 then 0 else 1 + bit_length (n div 2))"
  by pat_completeness auto
termination
  by (relation "measure nat") auto

declare bit_length.simps [simp del]

text \<open>The fraction \<open>a / (b * 2^e)\<close>, for an exponent of either sign.\<close>

definition scaled :: "int \<Rightarrow> int \<Rightarrow> int \<Rightarrow> int \<times> int" where
  "scaled a b e = (if 0 \<le> e then (a, b * ipow 2 e) else (a * ipow 2 (- e), b))"

definition round_half_even :: "int \<Rightarrow> int \<Rightarrow> int" where
  "round_half_even a b =
     (let q = a div b; r = a mod b
      in if 2 * r < b then q else if b < 2 * r then q + 1 else if even q then q else q + 1)"

text \<open>
  The Number value for the positive rational \<open>a / b\<close>: the nearest binary64 value, ties
  to the even significand. \<open>e\<close> is the binary exponent of \<open>a / b\<close>; the significand has
  53 bits, below \<open>2^-1022\<close> the spacing stays \<open>2^-1074\<close>, and what rounds to \<open>2^1024\<close> is
  \<open>Infinity\<close>.
\<close>

definition round_double :: "int \<Rightarrow> int \<Rightarrow> jsnum" where
  "round_double a b =
     (let e0 = bit_length a - bit_length b;
          e = (case scaled a b e0 of (a', b') \<Rightarrow> if a' < b' then e0 - 1 else e0);
          sh = max e (- 1022) - 52;
          m = (case scaled a b sh of (a', b') \<Rightarrow> round_half_even a' b')
      in if 1023 < e \<or> (e = 1023 \<and> m = ipow 2 53) then PosInfinity
         else if 0 \<le> sh then Num (of_int (m * ipow 2 sh))
         else Num (of_int m / of_int (ipow 2 (- sh))))"

definition digit_in :: "int \<Rightarrow> char \<Rightarrow> int option" where
  "digit_in base c =
     (let n = (of_char c :: int);
          d = (if 48 \<le> n \<and> n \<le> 57 then n - 48
               else if 97 \<le> n \<and> n \<le> 102 then n - 87
               else if 65 \<le> n \<and> n \<le> 70 then n - 55
               else base)
      in if d < base then Some d else None)"

fun digits_in :: "int \<Rightarrow> int \<Rightarrow> string \<Rightarrow> int option" where
  "digits_in base acc [] = Some acc"
| "digits_in base acc (c # cs) =
     (case digit_in base c of None \<Rightarrow> None | Some d \<Rightarrow> digits_in base (base * acc + d) cs)"

definition is_digit :: "char \<Rightarrow> bool" where
  "is_digit c \<longleftrightarrow> digit_in 10 c \<noteq> None"

definition unsigned_integer :: "int \<Rightarrow> string \<Rightarrow> int option" where
  "unsigned_integer base s = (if s = [] then None else digits_in base 0 s)"

text \<open>
  The grammar of \<open>StringToNumber\<close>. \<open>ExponentPart\<close> is optional: \<open>e\<close> or \<open>E\<close>, an optional
  sign and at least one digit.
\<close>

definition ExponentPart :: "string \<Rightarrow> int option" where
  "ExponentPart s =
     (case s of
        [] \<Rightarrow> Some 0
      | c # cs \<Rightarrow>
          if c = CHR ''e'' \<or> c = CHR ''E''
          then (case cs of
                  [] \<Rightarrow> None
                | d # ds \<Rightarrow>
                    if d = CHR ''+'' then unsigned_integer 10 ds
                    else if d = CHR ''-'' then map_option uminus (unsigned_integer 10 ds)
                    else unsigned_integer 10 cs)
          else None)"

text \<open>
  \<open>Infinity\<close>, or digits with an optional fraction and exponent, with a digit before or
  after the point.
\<close>

definition StrUnsignedDecimalLiteral :: "string \<Rightarrow> jsnum" where
  "StrUnsignedDecimalLiteral s =
     (if s = ''Infinity'' then PosInfinity
      else
        (let ip = takeWhile is_digit s;
             r1 = dropWhile is_digit s;
             dot = (r1 \<noteq> [] \<and> hd r1 = CHR ''.'');
             fp = (if dot then takeWhile is_digit (tl r1) else []);
             r2 = (if dot then dropWhile is_digit (tl r1) else r1)
         in if ip = [] \<and> fp = [] then NaN
            else
              (case (digits_in 10 0 (ip @ fp), ExponentPart r2) of
                 (Some m, Some ex) \<Rightarrow>
                   (let e10 = ex - int (length fp)
                    in if m = 0 then Num 0
                       else if 0 \<le> e10 then round_double (m * ipow 10 e10) 1
                       else round_double m (ipow 10 (- e10)))
               | _ \<Rightarrow> NaN)))"

definition negate :: "jsnum \<Rightarrow> jsnum" where
  "negate num =
     (case num of NaN \<Rightarrow> NaN | Num q \<Rightarrow> Num (- q) | PosInfinity \<Rightarrow> NegInfinity
      | NegInfinity \<Rightarrow> PosInfinity)"

text \<open>\<open>0x\<close>, \<open>0o\<close> or \<open>0b\<close> and at least one digit of that base; no sign.\<close>

definition NonDecimalIntegerLiteral :: "string \<Rightarrow> jsnum option" where
  "NonDecimalIntegerLiteral s =
     (case s of
        z # x # ds \<Rightarrow>
          if z = CHR ''0'' \<and> (x = CHR ''x'' \<or> x = CHR ''X'' \<or> x = CHR ''o'' \<or> x = CHR ''O''
                                 \<or> x = CHR ''b'' \<or> x = CHR ''B'')
          then Some (case unsigned_integer
                            (if x = CHR ''x'' \<or> x = CHR ''X'' then 16
                             else if x = CHR ''o'' \<or> x = CHR ''O'' then 8 else 2) ds of
                       None \<Rightarrow> NaN
                     | Some m \<Rightarrow> if m = 0 then Num 0 else round_double m 1)
          else None
      | _ \<Rightarrow> None)"

text \<open>White space is trimmed; the empty text is 0; what the grammar does not derive is \<open>NaN\<close>.\<close>

definition StringToNumber :: "string \<Rightarrow> jsnum" where
  "StringToNumber str =
     (case trim str of
        [] \<Rightarrow> Num 0
      | c # cs \<Rightarrow>
          (case NonDecimalIntegerLiteral (c # cs) of
             Some num \<Rightarrow> num
           | None \<Rightarrow>
               if c = CHR ''+'' then StrUnsignedDecimalLiteral cs
               else if c = CHR ''-'' then negate (StrUnsignedDecimalLiteral cs)
               else StrUnsignedDecimalLiteral (c # cs)))"

function show_int :: "int \<Rightarrow> string" where
  "show_int n = (if n < 10 then [char_of (48 + n)] else show_int (n div 10) @ [char_of (48 + n mod 10)])"
  by pat_completeness auto
termination
  by (relation "measure nat") auto

declare show_int.simps [simp del]

text \<open>The fraction \<open>a / (b * 10^e)\<close>, for an exponent of either sign.\<close>

definition scaled10 :: "int \<Rightarrow> int \<Rightarrow> int \<Rightarrow> int \<times> int" where
  "scaled10 a b e = (if 0 \<le> e then (a, b * ipow 10 e) else (a * ipow 10 (- e), b))"

text \<open>The \<open>n\<close> with \<open>10^(n-1) \<le> a / b < 10^n\<close>, for a positive \<open>a / b\<close>.\<close>

definition decimal_exponent :: "int \<Rightarrow> int \<Rightarrow> int" where
  "decimal_exponent a b =
     (let d = int (length (show_int a)) - int (length (show_int b))
      in case scaled10 a b d of (a', b') \<Rightarrow> if a' < b' then d else d + 1)"

text \<open>
  \<open>Number::toString\<close> looks for the integers \<open>n\<close>, \<open>k\<close>, \<open>s\<close> with \<open>k\<close> as small as
  possible such that \<open>s\<close> has \<open>k\<close> digits and \<open>s * 10^(n-k)\<close> is the number, that is,
  rounds to it. With \<open>k\<close> digits the two integers next to \<open>x / 10^(n-k)\<close> are the
  candidates for \<open>s\<close>; of two that round to the number the closer is taken, and the even
  one when they are equally close. A candidate of \<open>k + 1\<close> digits is \<open>10^k\<close> and goes with
  the next \<open>n\<close>.
\<close>

definition shortest_at :: "int \<Rightarrow> int \<Rightarrow> int \<Rightarrow> int \<Rightarrow> (int \<times> int) option" where
  "shortest_at a b n k =
     (case scaled10 a b (n - k) of (a', b') \<Rightarrow>
        (let lo = a' div b'; r = a' mod b'; hi = lo + 1;
             ok = (\<lambda>s. (case scaled10 s 1 (k - n) of (c, d) \<Rightarrow> round_double c d)
                        = Num (of_int a / of_int b));
             pick = (if r = 0 then (if ok lo then Some lo else None)
                     else if ok lo \<and> ok hi
                     then (if 2 * r < b' then Some lo else if b' < 2 * r then Some hi
                           else if even lo then Some lo else Some hi)
                     else if ok lo then Some lo
                     else if ok hi then Some hi
                     else None)
         in map_option (\<lambda>s. if s = ipow 10 k then (ipow 10 (k - 1), n + 1) else (s, n)) pick))"

fun shortest_from :: "int \<Rightarrow> int \<Rightarrow> int \<Rightarrow> int list \<Rightarrow> (int \<times> int \<times> int) option" where
  "shortest_from a b n [] = None"
| "shortest_from a b n (k # ks) =
     (case shortest_at a b n k of
        Some (s, n') \<Rightarrow> Some (n', k, s)
      | None \<Rightarrow> shortest_from a b n ks)"

text \<open>
  The text for \<open>n\<close>, \<open>k\<close>, \<open>s\<close>: the digits of \<open>s\<close>, padded with zeros or split by a point
  when \<open>n\<close> is between -5 and 21, and in exponent form otherwise. Seventeen digits tell
  any two binary64 values apart, so the search ends with a result on every such value.
\<close>

definition Number_toString_pos :: "int \<Rightarrow> int \<Rightarrow> string" where
  "Number_toString_pos a b =
     (case shortest_from a b (decimal_exponent a b)
             [1, 2, 3, 4, 5, 6, 7, 8, 9, 10, 11, 12, 13, 14, 15, 16, 17] of
        None \<Rightarrow> ''NaN''
      | Some (n, k, s) \<Rightarrow>
          (let ds = show_int s;
               ex = (if 0 \<le> n - 1 then CHR ''+'' # show_int (n - 1) else CHR ''-'' # show_int (1 - n))
           in if k \<le> n \<and> n \<le> 21 then ds @ replicate (nat (n - k)) CHR ''0''
              else if 0 < n \<and> n \<le> 21 then take (nat n) ds @ CHR ''.'' # drop (nat n) ds
              else if - 6 < n \<and> n \<le> 0 then ''0.'' @ replicate (nat (- n)) CHR ''0'' @ ds
              else if k = 1 then ds @ CHR ''e'' # ex
              else hd ds # CHR ''.'' # tl ds @ CHR ''e'' # ex))"

definition Number_toString :: "jsnum \<Rightarrow> string" where
  "Number_toString num =
     (case num of
        NaN \<Rightarrow> ''NaN''
      | PosInfinity \<Rightarrow> ''Infinity''
      | NegInfinity \<Rightarrow> ''-Infinity''
      | Num q \<Rightarrow>
          (case quotient_of q of (a, b) \<Rightarrow>
             if a = 0 then ''0''
             else if a < 0 then CHR ''-'' # Number_toString_pos (- a) b
             else Number_toString_pos a b))"

definition ecma262 :: builtins where
  "ecma262 = \<lparr>js_Number = StringToNumber, js_String = Number_toString\<rparr>"

definition getCell :: "row \<Rightarrow> nat \<Rightarrow> cell" where
  "getCell r col = (if 1 \<le> col \<and> col \<le> length r then r ! (col - 1) else None)"

definition getRow :: "sheet \<Rightarrow> nat \<Rightarrow> row" where
  "getRow sh i = (if 1 \<le> i \<and> i \<le> length sh then sh ! (i - 1) else [])"

text \<open>\<open>sheet.columnCount\<close>: the largest number of cells of a row.\<close>

definition columnCount :: "sheet \<Rightarrow> nat" where
  "columnCount sh = foldr (\<lambda>r n. max (length r) n) sh 0"

text \<open>\<open>String(cell.value ?? "")\<close>\<close>

definition cell_text :: "cell \<Rightarrow> string" where
  "cell_text v = (case v of None \<Rightarrow> [] | Some s \<Rightarrow> s)"

text \<open>\<open>val?.replace(/[{}]/g, "") ?? ""\<close>\<close>

definition stripBraces :: "string \<Rightarrow> string" where
  "stripBraces val = filter (\<lambda>c. c \<noteq> CHR ''{'' \<and> c \<noteq> CHR ''}'') val"

text \<open>
  Language column detection, as written three times in the source (\<open>importFormNames\<close>,
  \<open>prepareFormContent\<close>, \<open>prepareSiteMapContent\<close>, with the defaults 4, 6 and 5):
  \<open>for (let col = 1; col <= sheet.columnCount; col++) { const num = Number(String(
  headerRow.getCell(col).value ?? "")); if (!isNaN(num) && num > 1000) { langStartCol =
  col; break; } }\<close>
\<close>

definition is_lang_header :: "builtins \<Rightarrow> cell \<Rightarrow> bool" where
  "is_lang_header js v = exceeds_1000 (js_Number js (cell_text v))"

definition detectLangStart :: "builtins \<Rightarrow> sheet \<Rightarrow> nat \<Rightarrow> nat" where
  "detectLangStart js sh dflt =
     (case find (\<lambda>col. is_lang_header js (getCell (getRow sh 1) col)) [1 ..< Suc (columnCount sh)] of
        None \<Rightarrow> dflt
      | Some col \<Rightarrow> col)"

text \<open>
  A label dictionary \<open>Record<number, string>\<close>, in insertion order. Its keys are
  property keys, the texts \<open>String(lcid)\<close> of the numbers read off the header.
\<close>

type_synonym labels = "(string \<times> string) list"

fun dict_set :: "'k \<Rightarrow> 'v \<Rightarrow> ('k \<times> 'v) list \<Rightarrow> ('k \<times> 'v) list" where
  "dict_set k v [] = [(k, v)]"
| "dict_set k v ((k', v') # kvs) =
     (if k' = k then (k, v) # kvs else (k', v') # dict_set k v kvs)"

text \<open>\<open>{ ...a, ...b }\<close>\<close>

definition dict_merge :: "('k \<times> 'v) list \<Rightarrow> ('k \<times> 'v) list \<Rightarrow> ('k \<times> 'v) list" where
  "dict_merge a b = foldl (\<lambda>d (k, v). dict_set k v d) a b"

definition getLanguageColumns :: "builtins \<Rightarrow> sheet \<Rightarrow> nat \<Rightarrow> jsnum list" where
  "getLanguageColumns js sh startCol =
     map (js_Number js)
       (List.map_filter (\<lambda>col. getCell (getRow sh 1) col) [startCol ..< Suc (columnCount sh)])"

fun readLabels_from :: "builtins \<Rightarrow> row \<Rightarrow> nat \<Rightarrow> jsnum list \<Rightarrow> labels \<Rightarrow> labels" where
  "readLabels_from js r col [] acc = acc"
| "readLabels_from js r col (l # ls) acc =
     readLabels_from js r (Suc col) ls
       (case getCell r col of
          None \<Rightarrow> acc
        | Some s \<Rightarrow> if trim s \<noteq> [] then dict_set (js_String js l) s acc else acc)"

definition readLabels :: "builtins \<Rightarrow> row \<Rightarrow> nat \<Rightarrow> jsnum list \<Rightarrow> labels" where
  "readLabels js r startCol lcids = readLabels_from js r startCol lcids []"

section \<open>Import: the Entities sheet (importEntities)\<close>

datatype level = info | success | warning | error

type_synonym log_entry = "level \<times> string"

record entity_entry =
  displayName :: labels
  displayCollectionName :: labels
  description :: labels

definition empty_entry :: entity_entry where
  "empty_entry = \<lparr>displayName = [], displayCollectionName = [], description = []\<rparr>"

text \<open>Rewriting the value a \<open>Map\<close> holds for a key; the \<open>Map\<close> keeps insertion order.\<close>

fun map_entry :: "'k \<Rightarrow> ('v \<Rightarrow> 'v) \<Rightarrow> ('k \<times> 'v) list \<Rightarrow> ('k \<times> 'v) list" where
  "map_entry k f [] = []"
| "map_entry k f ((k', v) # kvs) =
     (if k' = k then (k', f v) # kvs else (k', v) # map_entry k f kvs)"

text \<open>The body of the \<open>eachRow\<close> callback of \<open>importEntities\<close>, for a data row.\<close>

definition entity_row_step ::
  "builtins \<Rightarrow> jsnum list \<Rightarrow> (string \<times> entity_entry) list \<Rightarrow> row
     \<Rightarrow> (string \<times> entity_entry) list" where
  "entity_row_step js lcids entityMap r =
     (let entityLogicalName = trim (cell_text (getCell r 2));
          type = trim (cell_text (getCell r 3))
      in if entityLogicalName = [] \<or> type = [] then entityMap
         else
           (let m1 = (if map_of entityMap entityLogicalName = None
                      then entityMap @ [(entityLogicalName, empty_entry)] else entityMap);
                labels = readLabels js r 4 lcids
            in map_entry entityLogicalName
                 (\<lambda>entry.
                    if type = ''DisplayName''
                    then entry\<lparr>displayName := dict_merge (displayName entry) labels\<rparr>
                    else if type = ''DisplayCollectionName''
                    then entry\<lparr>displayCollectionName := dict_merge (displayCollectionName entry) labels\<rparr>
                    else if type = ''Description''
                    then entry\<lparr>description := dict_merge (description entry) labels\<rparr>
                    else entry)
                 m1))"

definition parseEntities :: "builtins \<Rightarrow> sheet \<Rightarrow> (string \<times> entity_entry) list" where
  "parseEntities js sh = foldl (entity_row_step js (getLanguageColumns js sh 4)) [] (tl sh)"

text \<open>\<open>Object.keys(d).length > 0 ? d : null\<close>\<close>

definition nonempty_or_null :: "labels \<Rightarrow> labels option" where
  "nonempty_or_null d = (if d = [] then None else Some d)"

text \<open>
  An XML element: tag, attributes in order, child elements in order. Layout documents
  are taken as element trees; text nodes carry no caption and are left out, and the
  cached text of a document is identified with the tree it parses to.
\<close>

datatype xml = Element (tag: string) (attrs: "(string \<times> string) list") (children: "xml list")

text \<open>The \<open>dataverseService\<close> methods the import invokes, with their arguments.\<close>

datatype import_call =
    UpdateEntityMetadata string "labels option" "labels option" "labels option"
  | GetFormById string
  | UpdateForm string xml
  | GetSiteMapById string
  | UpdateSiteMap string xml
  | PublishAllCustomizations

text \<open>
  The repository as the import sees it: whether the service has a connection, which
  calls the API rejects (with the error message), and the stored layout documents.
\<close>

record repo =
  connection :: bool
  rejects :: "import_call \<Rightarrow> string option"
  formxml :: "string \<Rightarrow> xml"
  sitemapxml :: "string \<Rightarrow> xml"

record io =
  calls :: "import_call list"
  logs :: "log_entry list"

definition onLog :: "level \<Rightarrow> string \<Rightarrow> 'a io_scheme \<Rightarrow> 'a io_scheme" where
  "onLog lv msg s = s\<lparr>logs := logs s @ [(lv, msg)]\<rparr>"

definition invoke :: "import_call \<Rightarrow> 'a io_scheme \<Rightarrow> 'a io_scheme" where
  "invoke c s = s\<lparr>calls := calls s @ [c]\<rparr>"

definition no_connection :: string where
  "no_connection = ''No connection available. Please connect first.''"

text \<open>
  The update loop of \<open>importEntities\<close>. \<open>updateEntityMetadata\<close> throws without a
  connection (the loop logs an error and does not count the entity); a rejection by the
  API is caught inside the service, logged as a warning, and the entity counts as
  processed.
\<close>

fun updateEntities ::
  "repo \<Rightarrow> nat \<Rightarrow> nat \<Rightarrow> (string \<times> entity_entry) list \<Rightarrow> nat \<Rightarrow> 'a io_scheme
     \<Rightarrow> nat \<times> 'a io_scheme" where
  "updateEntities rp batchCount totalN [] processed s = (processed, s)"
| "updateEntities rp batchCount totalN ((lname, data) # rest) processed s =
     (let c = UpdateEntityMetadata lname
                (nonempty_or_null (displayName data))
                (nonempty_or_null (displayCollectionName data))
                (nonempty_or_null (description data));
          s1 = invoke c s
      in if \<not> connection rp
         then updateEntities rp batchCount totalN rest processed
                (onLog error (''Failed to update entity '' @ lname @ '': '' @ no_connection)
                   (onLog error no_connection s1))
         else
           (let s2 = (case rejects rp c of
                        None \<Rightarrow> s1
                      | Some msg \<Rightarrow>
                          onLog warning (''Failed to update entity metadata for '' @ lname
                                           @ '' error: '' @ msg) s1);
                processed' = Suc processed;
                s3 = (if batchCount \<noteq> 0 \<and> processed' mod batchCount = 0
                      then onLog info (''Entities: '' @ show_nat processed' @ ''/'' @ show_nat totalN
                                         @ '' updated'') s2
                      else s2)
            in updateEntities rp batchCount totalN rest processed' s3))"

definition importEntities ::
  "builtins \<Rightarrow> repo \<Rightarrow> nat \<Rightarrow> sheet \<Rightarrow> 'a io_scheme \<Rightarrow> 'a io_scheme" where
  "importEntities js rp batchCount sh s =
     (let entityMap = parseEntities js sh;
          totalN = length entityMap
      in case updateEntities rp batchCount totalN entityMap 0 s of
           (processed, s') \<Rightarrow>
             onLog success (''Entities: '' @ show_nat processed @ ''/'' @ show_nat totalN @ '' updated'') s')"

section \<open>Layout documents\<close>

text \<open>\<open>element.getAttribute(a)\<close>, and \<open>element.getAttribute(a) ?? ""\<close>.\<close>

definition getAttribute :: "xml \<Rightarrow> string \<Rightarrow> string option" where
  "getAttribute e a = map_of (attrs e) a"

definition attr_or_empty :: "xml \<Rightarrow> string \<Rightarrow> string" where
  "attr_or_empty e a = (case getAttribute e a of None \<Rightarrow> [] | Some v \<Rightarrow> v)"

text \<open>The elements below an element, in document order.\<close>

fun descendants :: "xml \<Rightarrow> xml list" where
  "descendants (Element t a cs) = concat (map (\<lambda>c. c # descendants c) cs)"

text \<open>
  \<open>getElementsByTagName\<close> on an element lists its descendants with the tag; on the
  document it starts at the root element. \<open>querySelector\<close> with a bare tag name is the
  first descendant with that tag, at any depth.
\<close>

definition getElementsByTagName :: "xml \<Rightarrow> string \<Rightarrow> xml list" where
  "getElementsByTagName e t = filter (\<lambda>d. tag d = t) (descendants e)"

definition doc_getElementsByTagName :: "xml \<Rightarrow> string \<Rightarrow> xml list" where
  "doc_getElementsByTagName doc t = filter (\<lambda>d. tag d = t) (doc # descendants doc)"

definition querySelector :: "xml \<Rightarrow> string \<Rightarrow> xml option" where
  "querySelector e t = find (\<lambda>d. tag d = t) (descendants e)"

text \<open>
  The descendants again, each marked with whether it is a child of the element itself;
  this decides \<open>found?.parentElement != element\<close>.
\<close>

definition descendants_direct :: "xml \<Rightarrow> (bool \<times> xml) list" where
  "descendants_direct e =
     concat (map (\<lambda>c. (True, c) # map (\<lambda>d. (False, d)) (descendants c)) (children e))"

definition querySelector_own :: "xml \<Rightarrow> string \<Rightarrow> xml option" where
  "querySelector_own e t =
     (case find (\<lambda>(direct, d). tag d = t) (descendants_direct e) of
        Some (True, d) \<Rightarrow> Some d
      | _ \<Rightarrow> None)"

section \<open>Export: site map captions (exportSiteMap)\<close>

record SecInfo =
  sec_id :: string
  sec_name :: string
  sec_langProps :: "LangProp list"
  sec_uniqueName :: string
  sec_siteName :: string
  sec_siteId :: string
  sec_groupId :: "string option"

record SiteMapDef =
  sm_id :: string
  sm_name :: string
  sm_uniqueName :: string
  sm_xml :: xml

text \<open>
  \<open>container?.children ? Array.from(container.children).map((label) => ({ code:
  label.getAttribute("LCID") ?? "", translation: label.getAttribute(attr) ?? "" })) : []\<close>
\<close>

definition caption_translations :: "xml option \<Rightarrow> string \<Rightarrow> LangTranslation list" where
  "caption_translations container labelAttr =
     (case container of
        None \<Rightarrow> []
      | Some c \<Rightarrow> map (\<lambda>label. \<lparr>trans_code = attr_or_empty label ''LCID'',
                                  translation = attr_or_empty label labelAttr\<rparr>) (children c))"

definition site_node ::
  "SiteMapDef \<Rightarrow> xml \<Rightarrow> xml option \<Rightarrow> xml option \<Rightarrow> string option \<Rightarrow> SecInfo" where
  "site_node sm e titles descs gid =
     \<lparr>sec_id = attr_or_empty e ''Id'',
      sec_name = attr_or_empty e ''title'',
      sec_langProps =
        [\<lparr>prop_name = ''Title'', prop_translation = caption_translations titles ''Title''\<rparr>,
         \<lparr>prop_name = ''Description'',
          prop_translation = caption_translations descs ''Description''\<rparr>],
      sec_uniqueName = sm_uniqueName sm,
      sec_siteName = sm_name sm,
      sec_siteId = sm_id sm,
      sec_groupId = gid\<rparr>"

text \<open>
  The three synthetic nodes. Only the Titles of a Group are checked for being the
  group's own child (\<open>if (groupTitles?.parentElement != group) groupTitles = null\<close>);
  the five other containers are whatever \<open>querySelector\<close> finds first.
\<close>

definition area_node :: "SiteMapDef \<Rightarrow> xml \<Rightarrow> SecInfo" where
  "area_node sm area =
     site_node sm area (querySelector area ''Titles'') (querySelector area ''Descriptions'') None"

definition group_node :: "SiteMapDef \<Rightarrow> xml \<Rightarrow> SecInfo" where
  "group_node sm grp =
     site_node sm grp (querySelector_own grp ''Titles'') (querySelector grp ''Descriptions'') None"

definition subarea_node :: "SiteMapDef \<Rightarrow> xml \<Rightarrow> xml \<Rightarrow> SecInfo" where
  "subarea_node sm grp subarea =
     site_node sm subarea (querySelector subarea ''Titles'') (querySelector subarea ''Descriptions'')
       (Some (attr_or_empty grp ''Id''))"

text \<open>
  What the nested \<open>forEach\<close> loops push onto \<open>siteAreas\<close>, \<open>siteGroups\<close> and
  \<open>siteSubAreas\<close>, each in document order.
\<close>

definition exportSiteMap_nodes :: "SiteMapDef list \<Rightarrow> SecInfo list \<times> SecInfo list \<times> SecInfo list" where
  "exportSiteMap_nodes siteMaps =
     (concat (map (\<lambda>sm. map (area_node sm) (doc_getElementsByTagName (sm_xml sm) ''Area'')) siteMaps),
      concat (map (\<lambda>sm.
        concat (map (\<lambda>area. map (group_node sm) (getElementsByTagName area ''Group''))
                  (doc_getElementsByTagName (sm_xml sm) ''Area''))) siteMaps),
      concat (map (\<lambda>sm.
        concat (map (\<lambda>area.
          concat (map (\<lambda>grp. map (subarea_node sm grp) (getElementsByTagName grp ''SubArea''))
                    (getElementsByTagName area ''Group'')))
                  (doc_getElementsByTagName (sm_xml sm) ''Area''))) siteMaps))"

section \<open>Import: patching layout documents\<close>

text \<open>
  \<open>Object.entries\<close> of a label dictionary: keys that are array indices (the canonical
  decimal text of a whole number from 0 up to \<open>2^32 - 2\<close>) come first in ascending
  order, the other keys follow in insertion order.
\<close>

definition index_of_key :: "string \<Rightarrow> nat option" where
  "index_of_key k =
     (case k of
        [] \<Rightarrow> None
      | c # cs \<Rightarrow>
          (case digits_value 0 k of
             None \<Rightarrow> None
           | Some n \<Rightarrow> if (c \<noteq> CHR ''0'' \<or> cs = []) \<and> int n < 4294967295 then Some n else None))"

definition js_entries :: "labels \<Rightarrow> labels" where
  "js_entries d =
     sort_key (\<lambda>(k, v). case index_of_key k of None \<Rightarrow> 0 | Some n \<Rightarrow> n)
       (filter (\<lambda>(k, v). index_of_key k \<noteq> None) d)
     @ filter (\<lambda>(k, v). index_of_key k = None) d"

text \<open>
  Rewriting the first element, in document order, that satisfies \<open>P\<close>: the element a
  loop over \<open>getElementsByTagName\<close> with \<open>break\<close>, or \<open>querySelector\<close>, hands to the code
  that then mutates it in place. \<open>None\<close> when there is no such element.
\<close>

fun update_first :: "(xml \<Rightarrow> bool) \<Rightarrow> (xml \<Rightarrow> xml) \<Rightarrow> xml \<Rightarrow> xml option"
  and update_first_in :: "(xml \<Rightarrow> bool) \<Rightarrow> (xml \<Rightarrow> xml) \<Rightarrow> xml list \<Rightarrow> xml list option" where
  "update_first P f (Element t a cs) =
     (if P (Element t a cs) then Some (f (Element t a cs))
      else map_option (Element t a) (update_first_in P f cs))"
| "update_first_in P f [] = None"
| "update_first_in P f (c # cs) =
     (case update_first P f c of
        Some c' \<Rightarrow> Some (c' # cs)
      | None \<Rightarrow> map_option ((#) c) (update_first_in P f cs))"

text \<open>The same among the children only: \<open>element.querySelector(":scope > Tag")\<close>.\<close>

fun replace_first :: "('a \<Rightarrow> bool) \<Rightarrow> ('a \<Rightarrow> 'a) \<Rightarrow> 'a list \<Rightarrow> 'a list option" where
  "replace_first P f [] = None"
| "replace_first P f (x # xs) =
     (if P x then Some (f x # xs) else map_option ((#) x) (replace_first P f xs))"

text \<open>
  The caption rewrite of \<open>prepareFormContent\<close>. The container is
  \<open>element.querySelector("labels")\<close>, the first \<open>labels\<close> element anywhere below the
  element; only when there is none is a new one inserted as the first child. Its
  children are removed and one \<open>label\<close> per dictionary entry is appended.
\<close>

definition form_label_elems :: "labels \<Rightarrow> xml list" where
  "form_label_elems labels =
     map (\<lambda>(lcid, labelText).
            Element ''label'' [(''description'', labelText), (''languagecode'', lcid)] [])
       (js_entries labels)"

definition patchFormElement :: "labels \<Rightarrow> xml \<Rightarrow> xml" where
  "patchFormElement labels element =
     (case update_first_in (\<lambda>d. tag d = ''labels'')
             (\<lambda>labelsEl. Element (tag labelsEl) (attrs labelsEl) (form_label_elems labels))
             (children element) of
        Some cs' \<Rightarrow> Element (tag element) (attrs element) cs'
      | None \<Rightarrow>
          Element (tag element) (attrs element)
            (Element ''labels'' [] (form_label_elems labels) # children element))"

text \<open>
  The caption rewrite of \<open>prepareSiteMapContent\<close>. The container is chosen by the Type
  cell and looked up with \<open>:scope > containerName\<close>, among the children of the target
  element; when there is none a new one is appended as the last child.
\<close>

definition containerName_of :: "string \<Rightarrow> string" where
  "containerName_of type = (if type = ''Description'' then ''Descriptions'' else ''Titles'')"

definition sitemap_label_elems :: "string \<Rightarrow> labels \<Rightarrow> xml list" where
  "sitemap_label_elems type labels =
     (let labelAttr = (if type = ''Description'' then ''Description'' else ''Title'')
      in map (\<lambda>(lcid, labelText).
                Element (if containerName_of type = ''Titles'' then ''Title'' else ''Description'')
                  [(''LCID'', lcid), (labelAttr, labelText)] [])
           (js_entries labels))"

definition patchSiteMapElement :: "string \<Rightarrow> labels \<Rightarrow> xml \<Rightarrow> xml" where
  "patchSiteMapElement type labels targetElement =
     (case replace_first (\<lambda>c. tag c = containerName_of type)
             (\<lambda>container. Element (tag container) (attrs container) (sitemap_label_elems type labels))
             (children targetElement) of
        Some cs' \<Rightarrow> Element (tag targetElement) (attrs targetElement) cs'
      | None \<Rightarrow>
          Element (tag targetElement) (attrs targetElement)
            (children targetElement
             @ [Element (containerName_of type) [] (sitemap_label_elems type labels)]))"

section \<open>Import: the layout caches (importTranslations)\<close>

text \<open>
  The variables a site map row callback holds when it reaches
  \<open>await this.dvSvc.getSiteMapById(siteMapId)\<close>.
\<close>

record sm_task =
  task_siteMapId :: string
  task_elementType :: string
  task_elementId :: string
  task_type :: string
  task_labels :: labels

text \<open>
  The state of one import run: the calls and the log, the three caches (\<open>Map\<close>s from
  document id to document, in insertion order), and the row callbacks that are suspended
  on a fetch.
\<close>

record import_state = io +
  formUpdates :: "(string \<times> xml) list"
  dashboardUpdates :: "(string \<times> xml) list"
  siteMapUpdates :: "(string \<times> xml) list"
  suspended :: "sm_task list"

datatype cache_kind = FormCache | DashboardCache

definition get_cache :: "cache_kind \<Rightarrow> import_state \<Rightarrow> (string \<times> xml) list" where
  "get_cache ck st = (case ck of FormCache \<Rightarrow> formUpdates st | DashboardCache \<Rightarrow> dashboardUpdates st)"

definition set_cache :: "cache_kind \<Rightarrow> (string \<times> xml) list \<Rightarrow> import_state \<Rightarrow> import_state" where
  "set_cache ck c st =
     (case ck of FormCache \<Rightarrow> st\<lparr>formUpdates := c\<rparr> | DashboardCache \<Rightarrow> st\<lparr>dashboardUpdates := c\<rparr>)"

text \<open>
  The part of the site map row callback after the document is in the cache: find the
  element by tag and \<open>Id\<close>, patch it, write the document back into the cache entry.
\<close>

definition siteMap_patch_row :: "sm_task \<Rightarrow> import_state \<Rightarrow> import_state" where
  "siteMap_patch_row tk st =
     (case map_of (siteMapUpdates st) (task_siteMapId tk) of
        None \<Rightarrow> st
      | Some doc \<Rightarrow>
          (case update_first
                  (\<lambda>e. tag e = task_elementType tk \<and> getAttribute e ''Id'' = Some (task_elementId tk))
                  (patchSiteMapElement (task_type tk) (task_labels tk)) doc of
             None \<Rightarrow>
               onLog warning (''Could not find '' @ task_elementType tk @ '' with Id ''
                                @ task_elementId tk @ '' in sitemap '' @ task_siteMapId tk) st
           | Some doc' \<Rightarrow>
               st\<lparr>siteMapUpdates := dict_set (task_siteMapId tk) doc' (siteMapUpdates st)\<rparr>))"

text \<open>
  A suspended callback resumes when its fetch is answered: a rejection is logged and ends
  the callback; otherwise \<open>siteMapUpdates.set(siteMapId, ...)\<close> stores the fetched
  document, replacing whatever the cache holds for that id by then, and the patch follows.
\<close>

definition resume_row :: "repo \<Rightarrow> sm_task \<Rightarrow> import_state \<Rightarrow> import_state" where
  "resume_row rp tk st =
     (if \<not> connection rp
      then onLog error (''Could not retrieve sitemap '' @ task_siteMapId tk @ '': '' @ no_connection) st
      else
        (case rejects rp (GetSiteMapById (task_siteMapId tk)) of
           Some msg \<Rightarrow>
             onLog error (''Could not retrieve sitemap '' @ task_siteMapId tk @ '': '' @ msg) st
         | None \<Rightarrow>
             siteMap_patch_row tk
               (st\<lparr>siteMapUpdates :=
                     dict_set (task_siteMapId tk) (sitemapxml rp (task_siteMapId tk))
                       (siteMapUpdates st)\<rparr>)))"

text \<open>
  The import is one cooperative task. A suspended callback cannot run before the import
  itself next waits for the repository; the model lets every fetch that is under way be
  answered during that wait, in the order the fetches were started, which is the
  earliest the callbacks can resume.
\<close>

definition settle_suspended :: "repo \<Rightarrow> import_state \<Rightarrow> import_state" where
  "settle_suspended rp st =
     foldl (\<lambda>s tk. resume_row rp tk s) (st\<lparr>suspended := []\<rparr>) (suspended st)"

text \<open>A service call the import awaits; the service logs when it has no connection.\<close>

definition await_call :: "repo \<Rightarrow> import_call \<Rightarrow> import_state \<Rightarrow> import_state" where
  "await_call rp c st =
     settle_suspended rp (if connection rp then invoke c st else onLog error no_connection (invoke c st))"

text \<open>
  \<open>prepareSiteMapContent\<close>. The rows are handed to \<open>sheet.eachRow(async (row, rowNumber)
  => ...)\<close>, which does not wait for the callbacks: each callback runs until its first
  \<open>await\<close>. A row whose site map is already cached has no \<open>await\<close> on its path and is
  patched at once; a row whose site map is not cached starts the fetch and is suspended,
  and \<open>prepareSiteMapContent\<close> returns without it.
\<close>

definition siteMap_row ::
  "builtins \<Rightarrow> repo \<Rightarrow> string \<Rightarrow> nat \<Rightarrow> jsnum list \<Rightarrow> import_state \<Rightarrow> row \<Rightarrow> import_state" where
  "siteMap_row js rp elementType langStartCol lcids st r =
     (let elementIdCol = (if elementType = ''Area'' then 3 else if elementType = ''Group'' then 4 else 5);
          typeCol = (if elementType = ''Area'' then 4 else if elementType = ''Group'' then 5 else 6);
          siteMapId = trim (cell_text (getCell r 2));
          elementId = trim (cell_text (getCell r elementIdCol));
          type = trim (cell_text (getCell r typeCol))
      in if siteMapId = [] \<or> elementId = [] then st
         else
           (let labels = readLabels js r langStartCol lcids;
                tk = \<lparr>task_siteMapId = siteMapId, task_elementType = elementType,
                      task_elementId = elementId, task_type = type, task_labels = labels\<rparr>
            in if labels = [] then st
               else if map_of (siteMapUpdates st) siteMapId = None
               then (let st1 = (if connection rp then invoke (GetSiteMapById siteMapId) st
                                else onLog error no_connection (invoke (GetSiteMapById siteMapId) st))
                     in st1\<lparr>suspended := suspended st1 @ [tk]\<rparr>)
               else siteMap_patch_row tk st))"

definition prepareSiteMapContent ::
  "builtins \<Rightarrow> repo \<Rightarrow> string \<Rightarrow> sheet \<Rightarrow> import_state \<Rightarrow> import_state" where
  "prepareSiteMapContent js rp elementType sh st =
     (let langStartCol = detectLangStart js sh 5;
          lcids = getLanguageColumns js sh langStartCol
      in foldl (siteMap_row js rp elementType langStartCol lcids) st (tl sh))"

text \<open>
  \<open>prepareFormContent\<close>. The rows are walked by \<open>for (let i = 2; i <= sheet.rowCount;
  i++)\<close> with the fetch awaited in the loop. Every \<open>return\<close> of the loop body leaves
  the function, so the rows after such a row are not read.
\<close>

definition form_element_matches :: "string \<Rightarrow> string \<Rightarrow> xml \<Rightarrow> bool" where
  "form_element_matches contentType elementId e =
     (tag e = (if contentType = ''tab'' then ''tab''
               else if contentType = ''section'' then ''section'' else ''cell'')
      \<and> (getAttribute e ''id'' = Some elementId \<or> getAttribute e ''name'' = Some elementId))"

fun prepareFormContent_rows ::
  "builtins \<Rightarrow> repo \<Rightarrow> cache_kind \<Rightarrow> string \<Rightarrow> nat \<Rightarrow> jsnum list \<Rightarrow> row list \<Rightarrow> import_state
     \<Rightarrow> import_state" where
  "prepareFormContent_rows js rp ck contentType langStartCol lcids [] st = st"
| "prepareFormContent_rows js rp ck contentType langStartCol lcids (r # rest) st =
     (let elementId = trim (cell_text (getCell r 1));
          formId = stripBraces (cell_text (getCell r 5))
      in if formId = [] \<or> elementId = [] then st
         else
           (let labels = readLabels js r langStartCol lcids
            in if labels = [] then st
               else
                 (let fetched =
                        (if map_of (get_cache ck st) formId \<noteq> None then (True, st)
                         else
                           (let st1 = await_call rp (GetFormById formId) st
                            in if \<not> connection rp
                               then (False, onLog error (''Could not retrieve form '' @ formId @ '': ''
                                                          @ no_connection) st1)
                               else
                                 (case rejects rp (GetFormById formId) of
                                    Some msg \<Rightarrow>
                                      (False, onLog error (''Could not retrieve form '' @ formId
                                                            @ '': '' @ msg) st1)
                                  | None \<Rightarrow>
                                      (True, set_cache ck (get_cache ck st1 @ [(formId, formxml rp formId)])
                                               st1))))
                  in case fetched of
                       (False, st2) \<Rightarrow> st2
                     | (True, st2) \<Rightarrow>
                         (case map_of (get_cache ck st2) formId of
                            None \<Rightarrow> st2
                          | Some doc \<Rightarrow>
                              (case update_first (form_element_matches contentType elementId)
                                      (patchFormElement labels) doc of
                                 None \<Rightarrow>
                                   onLog warning (''Could not find '' @ contentType @ '' with id ''
                                                    @ elementId @ '' in form '' @ formId) st2
                               | Some doc' \<Rightarrow>
                                   prepareFormContent_rows js rp ck contentType langStartCol lcids rest
                                     (set_cache ck (dict_set formId doc' (get_cache ck st2)) st2))))))"

definition prepareFormContent ::
  "builtins \<Rightarrow> repo \<Rightarrow> cache_kind \<Rightarrow> string \<Rightarrow> sheet \<Rightarrow> import_state \<Rightarrow> import_state" where
  "prepareFormContent js rp ck contentType sh st =
     (let langStartCol = detectLangStart js sh 6;
          lcids = getLanguageColumns js sh langStartCol
      in prepareFormContent_rows js rp ck contentType langStartCol lcids (tl sh) st)"

text \<open>\<open>applyFormContentUpdates\<close>: one \<open>updateForm\<close> per cache entry, failures logged.\<close>

fun flushForms ::
  "repo \<Rightarrow> nat \<Rightarrow> nat \<Rightarrow> (string \<times> xml) list \<Rightarrow> nat \<Rightarrow> import_state \<Rightarrow> nat \<times> import_state" where
  "flushForms rp batchCount totalN [] processed st = (processed, st)"
| "flushForms rp batchCount totalN ((formId, doc) # rest) processed st =
     (let st1 = await_call rp (UpdateForm formId doc) st
      in if \<not> connection rp
         then flushForms rp batchCount totalN rest processed
                (onLog error (''Failed to update form '' @ formId @ '': '' @ no_connection) st1)
         else
           (case rejects rp (UpdateForm formId doc) of
              Some msg \<Rightarrow>
                flushForms rp batchCount totalN rest processed
                  (onLog error (''Failed to update form '' @ formId @ '': '' @ msg) st1)
            | None \<Rightarrow>
                (let processed' = Suc processed;
                     st2 = (if batchCount \<noteq> 0 \<and> processed' mod batchCount = 0
                            then onLog info (''Forms content: '' @ show_nat processed' @ ''/''
                                               @ show_nat totalN @ '' updated'') st1
                            else st1)
                 in flushForms rp batchCount totalN rest processed' st2)))"

definition applyFormContentUpdates ::
  "repo \<Rightarrow> nat \<Rightarrow> (string \<times> xml) list \<Rightarrow> import_state \<Rightarrow> import_state" where
  "applyFormContentUpdates rp batchCount updates st =
     (case flushForms rp batchCount (length updates) updates 0 st of
        (processed, st') \<Rightarrow>
          onLog success (''Forms content: '' @ show_nat processed @ ''/'' @ show_nat (length updates)
                           @ '' updated'') st')"

text \<open>
  \<open>applySiteMapUpdates\<close>: \<open>for (const [, data] of siteMapUpdates)\<close> walks the live
  \<open>Map\<close>. Callbacks that are still suspended resume during the first \<open>updateSiteMap\<close>
  and may add entries, which the walk then visits; after that wait nothing is suspended
  and the cache no longer changes.
\<close>

definition flushSiteMap :: "repo \<Rightarrow> string \<times> xml \<Rightarrow> nat \<times> import_state \<Rightarrow> nat \<times> import_state" where
  "flushSiteMap rp entry acc =
     (case (entry, acc) of
        ((siteMapId, doc), (processed, st)) \<Rightarrow>
          (let st1 = await_call rp (UpdateSiteMap siteMapId doc) st
           in if \<not> connection rp
              then (processed, onLog error (''Failed to update sitemap '' @ siteMapId @ '': ''
                                             @ no_connection) st1)
              else
                (case rejects rp (UpdateSiteMap siteMapId doc) of
                   Some msg \<Rightarrow>
                     (processed, onLog error (''Failed to update sitemap '' @ siteMapId @ '': '' @ msg) st1)
                 | None \<Rightarrow> (Suc processed, st1))))"

definition applySiteMapUpdates :: "repo \<Rightarrow> import_state \<Rightarrow> import_state" where
  "applySiteMapUpdates rp st =
     (let totalN = length (siteMapUpdates st);
          first = (case siteMapUpdates st of
                     [] \<Rightarrow> (0, st)
                   | entry # _ \<Rightarrow> flushSiteMap rp entry (0, st))
      in case foldl (\<lambda>acc entry. flushSiteMap rp entry acc) first (tl (siteMapUpdates (snd first))) of
           (processed, st') \<Rightarrow>
             onLog success (''SiteMaps: '' @ show_nat processed @ ''/'' @ show_nat totalN
                              @ '' updated'') st')"

text \<open>
  The sheet dispatch of \<open>importTranslations\<close>. The importers of the other label sheets
  (Attributes, Relationships, option sets, Booleans, Views, Charts, Forms, Dashboards)
  do not touch the layout caches; they are the parameter \<open>others\<close>.
\<close>

definition label_sheets :: "string list" where
  "label_sheets = [''Attributes'', ''Relationships'', ''RelationshipsNN'', ''Global OptionSets'',
                   ''Local OptionSets'', ''OptionSets'', ''Booleans'', ''Views'', ''Charts'',
                   ''Forms'', ''Dashboards'']"

definition import_sheet ::
  "builtins \<Rightarrow> repo \<Rightarrow> nat \<Rightarrow> (string \<Rightarrow> sheet \<Rightarrow> import_state \<Rightarrow> import_state) \<Rightarrow> import_state
     \<Rightarrow> string \<times> sheet \<Rightarrow> import_state" where
  "import_sheet js rp batchCount others st named =
     (case named of (name, sh) \<Rightarrow>
        if name = ''Entities''
        then (let st1 = importEntities js rp batchCount sh (onLog info ''Importing entity translations...'' st)
              in if parseEntities js sh = [] then st1 else settle_suspended rp st1)
        else if name = ''Forms Tabs''
        then prepareFormContent js rp FormCache ''tab'' sh
               (onLog info ''Preparing form tab translations...'' st)
        else if name = ''Forms Sections''
        then prepareFormContent js rp FormCache ''section'' sh
               (onLog info ''Preparing form section translations...'' st)
        else if name = ''Forms Fields''
        then prepareFormContent js rp FormCache ''field'' sh
               (onLog info ''Preparing form field translations...'' st)
        else if name = ''Dashboards Tabs''
        then prepareFormContent js rp DashboardCache ''tab'' sh
               (onLog info ''Preparing dashboard tab translations...'' st)
        else if name = ''Dashboards Sections''
        then prepareFormContent js rp DashboardCache ''section'' sh
               (onLog info ''Preparing dashboard section translations...'' st)
        else if name = ''Dashboards Fields''
        then prepareFormContent js rp DashboardCache ''field'' sh
               (onLog info ''Preparing dashboard field translations...'' st)
        else if name = ''SiteMap Areas''
        then prepareSiteMapContent js rp ''Area'' sh
               (onLog info ''Preparing sitemap area translations...'' st)
        else if name = ''SiteMap Groups''
        then prepareSiteMapContent js rp ''Group'' sh
               (onLog info ''Preparing sitemap group translations...'' st)
        else if name = ''SiteMap SubAreas''
        then prepareSiteMapContent js rp ''SubArea'' sh
               (onLog info ''Preparing sitemap subarea translations...'' st)
        else if name \<in> set label_sheets then others name sh st
        else onLog warning (''Skipping unknown sheet: '' @ name) st)"

definition init_state :: import_state where
  "init_state = \<lparr>calls = [], logs = [], formUpdates = [], dashboardUpdates = [],
                  siteMapUpdates = [], suspended = []\<rparr>"

text \<open>
  \<open>importTranslations\<close> on a loaded workbook: the sheets in order, then the three
  flushes, each under its \<open>size > 0\<close> test, then the publish.
\<close>

definition importTranslations ::
  "builtins \<Rightarrow> repo \<Rightarrow> nat \<Rightarrow> (string \<Rightarrow> sheet \<Rightarrow> import_state \<Rightarrow> import_state)
     \<Rightarrow> (string \<times> sheet) list \<Rightarrow> import_state" where
  "importTranslations js rp batchCount others workbook =
     (let st0 = onLog info ''Starting import...'' init_state;
          st1 = foldl (import_sheet js rp batchCount others) st0 workbook;
          st2 = (if formUpdates st1 \<noteq> []
                 then applyFormContentUpdates rp batchCount (formUpdates st1)
                        (onLog info (''Updating '' @ show_nat (length (formUpdates st1))
                                       @ '' forms with content changes...'') st1)
                 else st1);
          st3 = (if dashboardUpdates st2 \<noteq> []
                 then applyFormContentUpdates rp batchCount (dashboardUpdates st2)
                        (onLog info (''Updating '' @ show_nat (length (dashboardUpdates st2))
                                       @ '' dashboards with content changes...'') st2)
                 else st2);
          st4 = (if siteMapUpdates st3 \<noteq> []
                 then applySiteMapUpdates rp
                        (onLog info (''Updating '' @ show_nat (length (siteMapUpdates st3))
                                       @ '' sitemaps...'') st3)
                 else st3);
          st5 = await_call rp PublishAllCustomizations (onLog info ''Publishing customizations...'' st4)
      in if \<not> connection rp then onLog error (''Import failed: '' @ no_connection) st5
         else
           (case rejects rp PublishAllCustomizations of
              Some msg \<Rightarrow> onLog error (''Import failed: '' @ msg) st5
            | None \<Rightarrow> onLog success ''Import completed successfully!'' st5))"

text \<open>The documents of the worked examples.\<close>

definition example_form :: xml where
  "example_form =
     Element ''form'' []
       [Element ''tabs'' []
          [Element ''tab'' [(''id'', ''T1''), (''name'', ''general'')]
             [Element ''columns'' []
                [Element ''column'' []
                   [Element ''sections'' []
                      [Element ''section'' [(''id'', ''S1''), (''name'', ''details'')]
                         [Element ''labels'' []
                            [Element ''label''
                               [(''description'', ''Details''), (''languagecode'', ''1033'')] []]]]]]]]]"

definition example_sitemap :: xml where
  "example_sitemap =
     Element ''SiteMap'' [] [Element ''Area'' [(''Id'', ''A1'')] []]"

definition layout_repo :: repo where
  "layout_repo = \<lparr>connection = True, rejects = (\<lambda>c. None),
                  formxml = (\<lambda>i. example_form), sitemapxml = (\<lambda>i. example_sitemap)\<rparr>"

definition example_form_labelled :: xml where
  "example_form_labelled =
     Element ''form'' []
       [Element ''tabs'' []
          [Element ''tab'' [(''id'', ''T1''), (''name'', ''general'')]
             [Element ''labels'' []
                [Element ''label'' [(''description'', ''General''), (''languagecode'', ''1033'')] []],
              Element ''columns'' []
                [Element ''column'' []
                   [Element ''sections'' []
                      [Element ''section'' [(''id'', ''S1''), (''name'', ''details'')]
                         [Element ''labels'' []
                            [Element ''label''
                               [(''description'', ''Details''), (''languagecode'', ''1033'')] []]]]]]]]]"

definition labelled_repo :: repo where
  "labelled_repo = \<lparr>connection = True, rejects = (\<lambda>c. None),
                    formxml = (\<lambda>i. example_form_labelled), sitemapxml = (\<lambda>i. example_sitemap)\<rparr>"

text \<open>A repository that is connected and accepts every call, for the worked examples.\<close>

definition example_repo :: repo where
  "example_repo = \<lparr>connection = True, rejects = (\<lambda>c. None),
                   formxml = (\<lambda>i. Element ''form'' [] []),
                   sitemapxml = (\<lambda>i. Element ''SiteMap'' [] [])\<rparr>"

section \<open>Properties\<close>

subsection \<open>Output languages\<close>

lemma push_base_has_base: "lang_code base \<in> lang_code ` set (push_base langs base)"
proof (cases "list_ex (\<lambda>ld. lang_code ld = lang_code base) langs")
  case True
  then obtain ld where "ld \<in> set langs" "lang_code ld = lang_code base"
    by (auto simp: list_ex_iff)
  then have "lang_code base \<in> lang_code ` set langs"
    by (metis imageI)
  with True show ?thesis by (simp add: push_base_def)
next
  case False
  then show ?thesis by (simp add: push_base_def)
qed

lemma push_base_appends:
  "lang_code base \<notin> lang_code ` set langs \<Longrightarrow> push_base langs base = langs @ [base]"
proof -
  assume nb: "lang_code base \<notin> lang_code ` set langs"
  have "\<not> list_ex (\<lambda>ld. lang_code ld = lang_code base) langs"
  proof
    assume "list_ex (\<lambda>ld. lang_code ld = lang_code base) langs"
    then obtain ld where "ld \<in> set langs" "lang_code ld = lang_code base"
      by (auto simp: list_ex_iff)
    then have "lang_code base \<in> lang_code ` set langs" by (metis imageI)
    with nb show False by simp
  qed
  then show ?thesis by (simp add: push_base_def)
qed

lemma header_row_last:
  "last (header_row idcols (langs @ [base])) = Some (lang_code base)"
  by (simp add: header_row_def)

lemma export_headers_shape:
  "(n, h) \<in> set (export_headers opts hdb ls) \<Longrightarrow> \<exists>idcols. h = header_row idcols ls"
  by (auto simp: export_headers_def split: if_splits)

text \<open>
  Claim C10. Whenever the export gets as far as choosing its languages, the output
  language list contains the base language; when the operator's list (all languages, or
  the single selected one) does not hold the base language code, the output list is that
  list with the base language appended, and the header of every sheet the export creates
  is its identity columns followed by the codes of the output list, so that its last
  column is the base language.
\<close>

theorem outputLangs_contains_base:
  assumes "outputLangs_of opts allLanguages selectedLanguage base = Inr ls"
  shows "lang_code base \<in> lang_code ` set ls
    \<and> (\<exists>sel. selected_langs opts allLanguages selectedLanguage = Inr sel
           \<and> (lang_code base \<notin> lang_code ` set sel \<longrightarrow>
                ls = sel @ [base]
                \<and> (\<forall>(n, h) \<in> set (export_headers opts haveDashboards ls).
                      (\<exists>idcols. h = map Some idcols @ map (\<lambda>l. Some (lang_code l)) ls)
                      \<and> last h = Some (lang_code base))))"
proof -
  from assms obtain sel where
    sel: "selected_langs opts allLanguages selectedLanguage = Inr sel"
    and ls: "ls = push_base sel base"
    by (auto simp: outputLangs_of_def split: sum.splits)
  have base_in: "lang_code base \<in> lang_code ` set ls"
    unfolding ls by (rule push_base_has_base)
  have "ls = sel @ [base]
        \<and> (\<forall>(n, h) \<in> set (export_headers opts haveDashboards ls).
              (\<exists>idcols. h = map Some idcols @ map (\<lambda>l. Some (lang_code l)) ls)
              \<and> last h = Some (lang_code base))"
    if nb: "lang_code base \<notin> lang_code ` set sel"
  proof -
    from nb have eq: "ls = sel @ [base]"
      unfolding ls by (rule push_base_appends)
    have "(\<exists>idcols. h = map Some idcols @ map (\<lambda>l. Some (lang_code l)) ls)
          \<and> last h = Some (lang_code base)"
      if "(n, h) \<in> set (export_headers opts haveDashboards ls)" for n h
    proof -
      from export_headers_shape [OF that] obtain idcols where h: "h = header_row idcols ls"
        by blast
      have "last h = Some (lang_code base)"
        unfolding h eq by (rule header_row_last)
      moreover have "\<exists>idcols. h = map Some idcols @ map (\<lambda>l. Some (lang_code l)) ls"
        unfolding h header_row_def by blast
      ultimately show ?thesis by blast
    qed
    with eq show ?thesis by blast
  qed
  with sel base_in show ?thesis by blast
qed

text \<open>
  The run of the claim's example: French only is selected, English is the base language.
\<close>

theorem outputLangs_contains_base_witness:
  "outputLangs_of \<lparr>dashboards = True, attrFields = True, localOptionSets = True,
        globalOptionSets = True, forms = True, formTabs = True, formSections = True,
        formFields = True, relationships = True, labelOptions = both,
        exportAllLanguages = False\<rparr>
      [] (Some \<lparr>lang_code = ''1036'', lang_name = ''French''\<rparr>)
      \<lparr>lang_code = ''1033'', lang_name = ''English''\<rparr>
    = Inr [\<lparr>lang_code = ''1036'', lang_name = ''French''\<rparr>,
           \<lparr>lang_code = ''1033'', lang_name = ''English''\<rparr>]
   \<and> (''Entities'', [Some ''Entity Id'', Some ''Entity Logical Name'', Some ''Type'',
                     Some ''1036'', Some ''1033''])
       \<in> set (export_headers \<lparr>dashboards = True, attrFields = True, localOptionSets = True,
                 globalOptionSets = True, forms = True, formTabs = True, formSections = True,
                 formFields = True, relationships = True, labelOptions = both,
                 exportAllLanguages = False\<rparr> True
               [\<lparr>lang_code = ''1036'', lang_name = ''French''\<rparr>,
                \<lparr>lang_code = ''1033'', lang_name = ''English''\<rparr>])
   \<and> ''1033'' \<in> lang_code ` set [\<lparr>lang_code = ''1036'', lang_name = ''French''\<rparr>,
                                  \<lparr>lang_code = ''1033'', lang_name = ''English''\<rparr>]"
proof -
  have run: "outputLangs_of \<lparr>dashboards = True, attrFields = True, localOptionSets = True,
        globalOptionSets = True, forms = True, formTabs = True, formSections = True,
        formFields = True, relationships = True, labelOptions = both,
        exportAllLanguages = False\<rparr>
      [] (Some \<lparr>lang_code = ''1036'', lang_name = ''French''\<rparr>)
      \<lparr>lang_code = ''1033'', lang_name = ''English''\<rparr>
    = Inr [\<lparr>lang_code = ''1036'', lang_name = ''French''\<rparr>,
           \<lparr>lang_code = ''1033'', lang_name = ''English''\<rparr>]"
    by (simp add: outputLangs_of_def selected_langs_def push_base_def)
  have hdr: "(''Entities'', [Some ''Entity Id'', Some ''Entity Logical Name'', Some ''Type'',
                     Some ''1036'', Some ''1033''])
       \<in> set (export_headers \<lparr>dashboards = True, attrFields = True, localOptionSets = True,
                 globalOptionSets = True, forms = True, formTabs = True, formSections = True,
                 formFields = True, relationships = True, labelOptions = both,
                 exportAllLanguages = False\<rparr> True
               [\<lparr>lang_code = ''1036'', lang_name = ''French''\<rparr>,
                \<lparr>lang_code = ''1033'', lang_name = ''English''\<rparr>])"
    by (simp add: export_headers_def header_row_def)
  from outputLangs_contains_base [OF run] run hdr show ?thesis by simp
qed

subsection \<open>The language sweep\<close>

lemma updateLanguage_ok:
  "\<not> throws (UpdateLanguage lang userId) \<Longrightarrow>
     updateLanguage throws lang userId rs
       = (None, rs\<lparr>issued := issued rs @ [UpdateLanguage lang userId],
                    uilanguageid := lang, localeid := lang\<rparr>)"
  by (simp add: updateLanguage_def)

lemma fetch_lang_ok:
  "\<forall>c. \<not> throws c \<Longrightarrow>
     \<exists>rs'. fetch_lang throws opts tables solutionId base lang rs = (None, rs')"
  by (simp add: fetch_lang_def Let_def list_ex_iff)

lemma sweep_loop_ok:
  "\<forall>c. \<not> throws c \<Longrightarrow>
     \<exists>rs'. sweep_loop throws opts tables solutionId base userId cur ls rs = (None, rs')"
proof (induction ls arbitrary: cur rs)
  case Nil
  show ?case by simp
next
  case (Cons lang rest)
  let ?rs1 = "if cur \<noteq> lang_code lang
              then rs\<lparr>issued := issued rs @ [UpdateLanguage (lang_code lang) userId],
                      uilanguageid := lang_code lang, localeid := lang_code lang\<rparr>
              else rs"
  from Cons.prems have sw:
    "(if cur \<noteq> lang_code lang then updateLanguage throws (lang_code lang) userId rs
      else (None, rs)) = (None, ?rs1)"
    by (simp add: updateLanguage_ok)
  from fetch_lang_ok [OF Cons.prems] obtain rs2 where
    f: "fetch_lang throws opts tables solutionId base lang ?rs1 = (None, rs2)"
    by blast
  from Cons.IH [OF Cons.prems] obtain rs3 where
    "sweep_loop throws opts tables solutionId base userId (lang_code lang) rest rs2 = (None, rs3)"
    by blast
  with sw f show ?case by simp
qed

text \<open>
  The path the source does restore on: when no repository call rejects, the sweep ends
  with the operator's UI language as it was recorded at the start.
\<close>

lemma exportForms_sweep_restores_without_failure:
  assumes nothrow: "\<forall>c. \<not> throws c"
    and sweep: "forms opts \<or> formFields opts \<or> formSections opts \<or> formTabs opts \<or> dashboards opts"
    and run: "exportForms_sweep throws opts tables solutionId base outputLangs vm rs = (r, vm', rs')"
  shows "r = None \<and> uilanguageid rs' = uilanguageid rs"
proof -
  let ?rs0 = "rs\<lparr>issued := issued rs @ [GetUserLanguage]\<rparr>"
  from sweep_loop_ok [OF nothrow] obtain rs1 where
    l: "sweep_loop throws opts tables solutionId base (userid rs) (uilanguageid rs) outputLangs ?rs0
          = (None, rs1)"
    by blast
  from nothrow have u: "updateLanguage throws (uilanguageid rs) (userid rs) rs1
      = (None, rs1\<lparr>issued := issued rs1 @ [UpdateLanguage (uilanguageid rs) (userid rs)],
                    uilanguageid := uilanguageid rs, localeid := uilanguageid rs\<rparr>)"
    by (simp add: updateLanguage_ok)
  from nothrow sweep run l u show ?thesis
    by (auto simp: exportForms_sweep_def Let_def)
qed

text \<open>
  Claim C1, at the input of the spec's own scenario. The operator works in 1033, the
  export asks for 1033 and 1036, and the form fetch for 1036 rejects. The sweep has
  switched the operator to 1036 by then; the rejection leaves \<open>exportForms\<close> before
  \<open>"Reverting language..."\<close> is reached, so no restoring call is issued and the
  operator's UI language stays 1036.
\<close>

theorem exportForms_sweep_failure_leaves_locale:
  "exportForms_sweep (\<lambda>c. c = GetForms ''account'' ''1036'' False)
      \<lparr>dashboards = True, attrFields = True, localOptionSets = True,
        globalOptionSets = True, forms = True, formTabs = True, formSections = True,
        formFields = True, relationships = True, labelOptions = both,
        exportAllLanguages = True\<rparr>
      [''account''] ''sol''
      \<lparr>lang_code = ''1033'', lang_name = ''English''\<rparr>
      [\<lparr>lang_code = ''1033'', lang_name = ''English''\<rparr>,
       \<lparr>lang_code = ''1036'', lang_name = ''French''\<rparr>]
      \<lparr>vm_uiLocale = [], vm_locale = [], vm_userId = []\<rparr>
      \<lparr>uilanguageid = ''1033'', localeid = ''1033'', userid = ''u1'', issued = []\<rparr>
   = (Some (FetchFailure ''1036''),
      \<lparr>vm_uiLocale = ''1033'', vm_locale = ''1033'', vm_userId = ''u1''\<rparr>,
      \<lparr>uilanguageid = ''1036'', localeid = ''1036'', userid = ''u1'',
        issued = [GetUserLanguage, GetForms ''account'' ''1033'' True, GetDashboards ''sol'',
                  UpdateLanguage ''1036'' ''u1'', GetForms ''account'' ''1036'' False]\<rparr>)"
  by (simp add: exportForms_sweep_def updateLanguage_def fetch_lang_def Let_def)

subsection \<open>Sheet projection\<close>

text \<open>
  The Booleans sheet (and the option set sheets, which repeat its code) looks each output
  language up by code: the cell under a language column is the translation with that
  code, and is empty when the list has none.
\<close>

lemma boolean_row_cell_by_code:
  assumes "i < length outputLangs"
  shows "boolean_row outputLangs t os lp ! (6 + i)
           = (case find (\<lambda>tr. trans_code tr = lang_code (outputLangs ! i)) (prop_translation lp) of
                Some tr \<Rightarrow> Some (translation tr)
              | None \<Rightarrow> Some [])"
proof -
  have "boolean_row outputLangs t os lp ! (6 + i) = map (lang_cell lp) outputLangs ! i"
    by (simp add: boolean_row_def nth_append)
  with assms show ?thesis by (simp add: lang_cell_def)
qed

text \<open>
  Claim C3, at an input the Entities sheet receives: the output languages are 1033 and
  1036 and the repository holds a display name for 1036 only. \<open>exportTableInfo\<close> lays
  the translation list out by position, so the French text lands in the first language
  column, whose header is 1033, and the 1036 column has no cell at all.
\<close>

theorem exportTableInfo_cell_under_wrong_language:
  "exportTableInfo
      \<lparr>dashboards = True, attrFields = True, localOptionSets = True,
        globalOptionSets = True, forms = True, formTabs = True, formSections = True,
        formFields = True, relationships = True, labelOptions = both,
        exportAllLanguages = True\<rparr>
      [\<lparr>lang_code = ''1033'', lang_name = ''English''\<rparr>,
       \<lparr>lang_code = ''1036'', lang_name = ''French''\<rparr>]
      [\<lparr>table_id = ''t1'', logicalName = ''account'',
        langProps = [\<lparr>prop_name = ''DisplayName'',
                       prop_translation = [\<lparr>trans_code = ''1036'', translation = ''Compte''\<rparr>]\<rparr>],
        optionSets = []\<rparr>]
   = [[Some ''Entity Id'', Some ''Entity Logical Name'', Some ''Type'', Some ''1033'', Some ''1036''],
      [Some ''{t1}'', Some ''account'', Some ''DisplayName'', Some ''Compte'']]"
  by (simp add: exportTableInfo_def header_row_def entity_row_def entity_langProps_def braces_def)

subsection \<open>Site map captions on export\<close>

text \<open>
  Claim C7, at a site map whose Area has no caption container of its own, while the
  Group below it has Titles and the SubArea below that has Descriptions.
  \<open>area.querySelector("Titles")\<close> and \<open>area.querySelector("Descriptions")\<close> take the
  first such element at any depth, so the Area node is exported with the Group's title
  and the SubArea's description.
\<close>

theorem exportSiteMap_area_takes_nested_captions:
  "fst (exportSiteMap_nodes
      [\<lparr>sm_id = ''sm1'', sm_name = ''Main'', sm_uniqueName = ''main'',
        sm_xml =
          Element ''SiteMap'' []
            [Element ''Area'' [(''Id'', ''A1'')]
               [Element ''Group'' [(''Id'', ''G1'')]
                  [Element ''Titles'' []
                     [Element ''Title'' [(''LCID'', ''1033''), (''Title'', ''Sales group'')] []],
                   Element ''SubArea'' [(''Id'', ''S1'')]
                     [Element ''Descriptions'' []
                        [Element ''Description''
                           [(''LCID'', ''1033''), (''Description'', ''Leads list'')] []]]]]]\<rparr>])
   = [\<lparr>sec_id = ''A1'', sec_name = [],
       sec_langProps =
         [\<lparr>prop_name = ''Title'',
           prop_translation = [\<lparr>trans_code = ''1033'', translation = ''Sales group''\<rparr>]\<rparr>,
          \<lparr>prop_name = ''Description'',
           prop_translation = [\<lparr>trans_code = ''1033'', translation = ''Leads list''\<rparr>]\<rparr>],
       sec_uniqueName = ''main'', sec_siteName = ''Main'', sec_siteId = ''sm1'',
       sec_groupId = None\<rparr>]"
  by (simp add: exportSiteMap_nodes_def doc_getElementsByTagName_def area_node_def site_node_def
        querySelector_def caption_translations_def attr_or_empty_def getAttribute_def)

subsection \<open>Language column detection\<close>

lemma exceeds_1000_iff:
  "exceeds_1000 num \<longleftrightarrow> (\<exists>q. num = Num q \<and> 1000 < q) \<or> num = PosInfinity"
  by (cases num) (simp_all add: exceeds_1000_def)

text \<open>
  Claim C5, as the code has it. The scan starts at column 1 of the header, not at a
  column that depends on the sheet, and it asks whether \<open>Number\<close> of the header text is
  a number above 1000, whole or not. When some header column within the sheet's column
  count reads so, the detected start is the leftmost such column: its header reads as a
  finite number strictly greater than 1000 (or as \<open>Infinity\<close>), no column to its left
  does, and a column whose header reads as a number of at most 1000, such as 5, is not
  the detected start. When no column reads so, the start is the caller's default.
\<close>

theorem detectLangStart_leftmost_from_column_1:
  "((\<exists>col. 1 \<le> col \<and> col \<le> columnCount sh
            \<and> exceeds_1000 (js_Number js (cell_text (getCell (getRow sh 1) col))))
     \<longrightarrow>
       1 \<le> detectLangStart js sh dflt \<and> detectLangStart js sh dflt \<le> columnCount sh
       \<and> ((\<exists>q. js_Number js (cell_text (getCell (getRow sh 1) (detectLangStart js sh dflt))) = Num q
                \<and> 1000 < q)
            \<or> js_Number js (cell_text (getCell (getRow sh 1) (detectLangStart js sh dflt)))
                = PosInfinity)
       \<and> (\<forall>col. 1 \<le> col \<and> col < detectLangStart js sh dflt \<longrightarrow>
              \<not> exceeds_1000 (js_Number js (cell_text (getCell (getRow sh 1) col))))
       \<and> (\<forall>col q. js_Number js (cell_text (getCell (getRow sh 1) col)) = Num q \<and> q \<le> 1000 \<longrightarrow>
              detectLangStart js sh dflt \<noteq> col))
   \<and> (\<not> (\<exists>col. 1 \<le> col \<and> col \<le> columnCount sh
            \<and> exceeds_1000 (js_Number js (cell_text (getCell (getRow sh 1) col))))
     \<longrightarrow> detectLangStart js sh dflt = dflt)"
proof (intro conjI impI)
  let ?P = "\<lambda>col. exceeds_1000 (js_Number js (cell_text (getCell (getRow sh 1) col)))"
  let ?cols = "[1 ..< Suc (columnCount sh)]"
  have find_eq: "detectLangStart js sh dflt = (case find ?P ?cols of None \<Rightarrow> dflt | Some col \<Rightarrow> col)"
    unfolding detectLangStart_def is_lang_header_def ..
  {
    assume none: "\<not> (\<exists>col. 1 \<le> col \<and> col \<le> columnCount sh \<and> ?P col)"
    have "\<not> (\<exists>col. col \<in> set ?cols \<and> ?P col)"
    proof
      assume "\<exists>col. col \<in> set ?cols \<and> ?P col"
      then obtain col where "col \<in> set ?cols" "?P col" by blast
      then have "1 \<le> col \<and> col \<le> columnCount sh \<and> ?P col" by (simp del: upt_Suc)
      with none show False by blast
    qed
    then have "find ?P ?cols = None" unfolding find_None_iff .
    then show "detectLangStart js sh dflt = dflt" unfolding find_eq by simp
  }
  assume some: "\<exists>col. 1 \<le> col \<and> col \<le> columnCount sh \<and> ?P col"
  then obtain c0 where "1 \<le> c0" "c0 \<le> columnCount sh" and p0: "?P c0" by blast
  then have "c0 \<in> set ?cols" by (simp del: upt_Suc)
  with p0 have "\<exists>col. col \<in> set ?cols \<and> ?P col" by blast
  then have "find ?P ?cols \<noteq> None" unfolding find_None_iff by blast
  then obtain c where f: "find ?P ?cols = Some c" by blast
  then obtain i where i: "i < length ?cols" "?P (?cols ! i)" "c = ?cols ! i"
    and least: "\<forall>j<i. \<not> ?P (?cols ! j)"
    unfolding find_Some_iff by blast
  from i(1) have ile: "i < columnCount sh" by (simp del: upt_Suc)
  with i(3) have ci: "c = Suc i" by (simp del: upt_Suc)
  have d: "detectLangStart js sh dflt = c" unfolding find_eq f by simp
  from i(2) i(3) have pc: "?P c" by simp
  show "1 \<le> detectLangStart js sh dflt" unfolding d ci by simp
  show "detectLangStart js sh dflt \<le> columnCount sh" unfolding d ci using ile by simp
  show "(\<exists>q. js_Number js (cell_text (getCell (getRow sh 1) (detectLangStart js sh dflt))) = Num q
            \<and> 1000 < q)
        \<or> js_Number js (cell_text (getCell (getRow sh 1) (detectLangStart js sh dflt))) = PosInfinity"
    unfolding d using pc by (simp only: exceeds_1000_iff)
  show "\<forall>col. 1 \<le> col \<and> col < detectLangStart js sh dflt \<longrightarrow> \<not> ?P col"
  proof (intro allI impI)
    fix col assume a: "1 \<le> col \<and> col < detectLangStart js sh dflt"
    with d ci obtain j where j: "col = Suc j" "j < i" by (cases col) auto
    with least have "\<not> ?P (?cols ! j)" by blast
    moreover from j ile have "?cols ! j = col" by (simp del: upt_Suc)
    ultimately show "\<not> ?P col" by simp
  qed
  show "\<forall>col q. js_Number js (cell_text (getCell (getRow sh 1) col)) = Num q \<and> q \<le> 1000 \<longrightarrow>
          detectLangStart js sh dflt \<noteq> col"
  proof (intro allI impI notI)
    fix col q
    assume a: "js_Number js (cell_text (getCell (getRow sh 1) col)) = Num q \<and> q \<le> 1000"
      and "detectLangStart js sh dflt = col"
    with d have "c = col" by simp
    with pc a have "exceeds_1000 (Num q)" by simp
    with a show False by (simp add: exceeds_1000_def)
  qed
qed

text \<open>
  The header of the spec's example with a business number before the codes: the column
  holding 5 is passed over and the 1033 column is the start. A header without any
  number leaves the start at the default.
\<close>

theorem detectLangStart_leftmost_from_column_1_witness:
  "detectLangStart ecma262
      [[Some ''Form Unique Id'', Some ''Form Id'', Some ''Type'', Some ''5'', Some ''1033'',
        Some ''1036'']] 4 = 5
   \<and> js_Number ecma262 (cell_text (getCell (getRow [[Some ''Form Unique Id'', Some ''Form Id'',
          Some ''Type'', Some ''5'', Some ''1033'', Some ''1036'']] 1) 5)) = Num 1033
   \<and> js_Number ecma262 (cell_text (getCell (getRow [[Some ''Form Unique Id'', Some ''Form Id'',
          Some ''Type'', Some ''5'', Some ''1033'', Some ''1036'']] 1) 4)) = Num 5
   \<and> detectLangStart ecma262 [[Some ''Form Id'', Some ''Type'']] 4 = 4"
proof -
  let ?sh = "[[Some ''Form Unique Id'', Some ''Form Id'', Some ''Type'', Some ''5'',
               Some ''1033'', Some ''1036'']]"
  let ?sh2 = "[[Some ''Form Id'', Some ''Type'']]"
  have n5: "js_Number ecma262 (cell_text (getCell (getRow ?sh 1) 5)) = Num 1033"
    by code_simp
  have n4: "js_Number ecma262 (cell_text (getCell (getRow ?sh 1) 4)) = Num 5"
    by code_simp
  have cc: "columnCount ?sh = 6" by (simp add: columnCount_def)
  have ex: "\<exists>col. 1 \<le> col \<and> col \<le> columnCount ?sh
              \<and> exceeds_1000 (js_Number ecma262 (cell_text (getCell (getRow ?sh 1) col)))"
  proof (intro exI conjI)
    show "1 \<le> (5::nat)" by simp
    show "5 \<le> columnCount ?sh" by (simp add: cc)
    show "exceeds_1000 (js_Number ecma262 (cell_text (getCell (getRow ?sh 1) 5)))"
      by (simp only: n5) (simp add: exceeds_1000_def)
  qed
  have d: "detectLangStart ecma262 ?sh 4 = 5" by code_simp
  from detectLangStart_leftmost_from_column_1 [of ?sh ecma262 4] ex
  have first: "detectLangStart ecma262 ?sh 4 \<le> columnCount ?sh
        \<and> (\<forall>col q. js_Number ecma262 (cell_text (getCell (getRow ?sh 1) col)) = Num q \<and> q \<le> 1000
               \<longrightarrow> detectLangStart ecma262 ?sh 4 \<noteq> col)"
    by blast
  have cc2: "columnCount ?sh2 = 2" by (simp add: columnCount_def)
  have c1: "\<not> exceeds_1000 (js_Number ecma262 (cell_text (getCell (getRow ?sh2 1) 1)))"
    by code_simp
  have c2: "\<not> exceeds_1000 (js_Number ecma262 (cell_text (getCell (getRow ?sh2 1) 2)))"
    by code_simp
  have none: "\<not> (\<exists>col. 1 \<le> col \<and> col \<le> columnCount ?sh2
              \<and> exceeds_1000 (js_Number ecma262 (cell_text (getCell (getRow ?sh2 1) col))))"
  proof
    assume "\<exists>col. 1 \<le> col \<and> col \<le> columnCount ?sh2
              \<and> exceeds_1000 (js_Number ecma262 (cell_text (getCell (getRow ?sh2 1) col)))"
    then obtain col where col: "1 \<le> col" "col \<le> columnCount ?sh2"
        "exceeds_1000 (js_Number ecma262 (cell_text (getCell (getRow ?sh2 1) col)))"
      by blast
    from col(1,2) have "col = 1 \<or> col = 2" unfolding cc2 by arith
    with col(3) c1 c2 show False by blast
  qed
  from detectLangStart_leftmost_from_column_1 [of ?sh2 ecma262 4, THEN conjunct2, THEN mp, OF none]
  have second: "detectLangStart ecma262 ?sh2 4 = 4" .
  from first d n5 n4 second show ?thesis by simp
qed

text \<open>
  The number need not be whole: a header cell 1033.5 to the left of the Type column is
  taken for the start of the language block.
\<close>

lemma detectLangStart_takes_fraction:
  "detectLangStart ecma262
      [[Some ''Form Unique Id'', Some ''1033.5'', Some ''Type'', Some ''1036'']] 4 = 2"
  by code_simp

text \<open>
  Counterexample to claim C5 as stated, on where the scan starts. The language block of
  a SiteMap Areas sheet starts by default at column 5; with a first header cell that
  reads 2024 the detected start is column 1, not the 1033 column that a scan from the
  sheet's own offset would find.
\<close>

theorem detectLangStart_scans_from_column_1:
  "detectLangStart ecma262
      [[Some ''2024'', Some ''SiteMap Id'', Some ''Area Id'', Some ''Type'', Some ''1033'']] 5 = 1"
  by code_simp

subsection \<open>The Entities sheet: skipped rows\<close>

lemma map_filter_upt_beyond:
  "List.map_filter (getCell r) [a ..< Suc (length r + k)]
     = List.map_filter (getCell r) [a ..< Suc (length r)]"
proof (induction k)
  case 0
  show ?case by simp
next
  case (Suc k)
  have none: "getCell r (Suc (length r + k)) = None"
    by (simp add: getCell_def)
  show ?case
  proof (cases "a \<le> Suc (length r + k)")
    case True
    then have "[a ..< Suc (length r + Suc k)] = [a ..< Suc (length r + k)] @ [Suc (length r + k)]"
      by simp
    then have "List.map_filter (getCell r) [a ..< Suc (length r + Suc k)]
                 = List.map_filter (getCell r) [a ..< Suc (length r + k)]"
      using none by (simp add: List.map_filter_def)
    with Suc show ?thesis by simp
  next
    case False
    then have "[a ..< Suc (length r + Suc k)] = []" "[a ..< Suc (length r)] = []"
      by simp_all
    then show ?thesis by simp
  qed
qed

lemma columnCount_Cons: "columnCount (r # rows) = max (length r) (columnCount rows)"
  by (simp add: columnCount_def)

text \<open>The language codes depend on the header row only, not on the data rows.\<close>

lemma getLanguageColumns_header:
  "getLanguageColumns js (hdr # rows) startCol
     = map (js_Number js) (List.map_filter (getCell hdr) [startCol ..< Suc (length hdr)])"
proof -
  obtain k where k: "columnCount (hdr # rows) = length hdr + k"
    using le_Suc_ex [of "length hdr" "columnCount (hdr # rows)"]
    by (auto simp: columnCount_Cons)
  have "getRow (hdr # rows) 1 = hdr" by (simp add: getRow_def)
  then show ?thesis
    unfolding getLanguageColumns_def k by (simp only: map_filter_upt_beyond)
qed

lemma entity_row_step_skip:
  "trim (cell_text (getCell r 2)) = [] \<or> trim (cell_text (getCell r 3)) = []
     \<Longrightarrow> entity_row_step js lcids m r = m"
  by (auto simp: entity_row_step_def Let_def)

lemma parseEntities_skip:
  assumes "trim (cell_text (getCell bad 2)) = [] \<or> trim (cell_text (getCell bad 3)) = []"
  shows "parseEntities js (hdr # rows1 @ bad # rows2) = parseEntities js (hdr # rows1 @ rows2)"
proof -
  have "getLanguageColumns js (hdr # rows1 @ bad # rows2) 4
          = getLanguageColumns js (hdr # rows1 @ rows2) 4"
    by (simp only: getLanguageColumns_header)
  then show ?thesis
    using entity_row_step_skip [OF assms] by (simp add: parseEntities_def)
qed

text \<open>
  Claim C4, as the Entities parser has it. A data row with a blank logical name or a
  blank Type is passed over by the \<open>eachRow\<close> callback without any log entry, and the
  rows after it are parsed: the whole import, its repository calls and its log, is the
  one of the sheet without that row.
\<close>

theorem importEntities_skips_row_silently:
  assumes "trim (cell_text (getCell bad 2)) = [] \<or> trim (cell_text (getCell bad 3)) = []"
  shows "importEntities js rp batchCount (hdr # rows1 @ bad # rows2) s
           = importEntities js rp batchCount (hdr # rows1 @ rows2) s"
  by (simp only: importEntities_def parseEntities_skip [OF assms])

theorem importEntities_skips_row_silently_witness:
  "importEntities ecma262 example_repo 10
      ([Some ''Entity Id'', Some ''Entity Logical Name'', Some ''Type'', Some ''1033'']
       # [] @ [Some ''{t0}'', None, Some ''DisplayName'', Some ''Lost'']
       # [[Some ''{t1}'', Some ''account'', Some ''DisplayName'', Some ''Account'']])
      \<lparr>calls = [], logs = []\<rparr>
    = \<lparr>calls = [UpdateEntityMetadata ''account'' (Some [(''1033'', ''Account'')]) None None],
       logs = [(success, ''Entities: 1/1 updated'')]\<rparr>"
proof -
  have blank: "trim (cell_text (getCell [Some ''{t0}'', None, Some ''DisplayName'', Some ''Lost''] 2)) = []
      \<or> trim (cell_text (getCell [Some ''{t0}'', None, Some ''DisplayName'', Some ''Lost''] 3)) = []"
    by (simp add: getCell_def cell_text_def trim_def)
  have "importEntities ecma262 example_repo 10
      ([Some ''Entity Id'', Some ''Entity Logical Name'', Some ''Type'', Some ''1033'']
       # [] @ [[Some ''{t1}'', Some ''account'', Some ''DisplayName'', Some ''Account'']])
      \<lparr>calls = [], logs = []\<rparr>
    = \<lparr>calls = [UpdateEntityMetadata ''account'' (Some [(''1033'', ''Account'')]) None None],
       logs = [(success, ''Entities: 1/1 updated'')]\<rparr>"
    by code_simp
  with importEntities_skips_row_silently [OF blank, of ecma262 example_repo 10
        "[Some ''Entity Id'', Some ''Entity Logical Name'', Some ''Type'', Some ''1033'']" "[]"
        "[[Some ''{t1}'', Some ''account'', Some ''DisplayName'', Some ''Account'']]"
        "\<lparr>calls = [], logs = []\<rparr>"]
  show ?thesis by simp
qed

text \<open>
  Counterexample to claim C4 as stated, on the warning: on the sheet below, whose first
  data row has no logical name, the import logs the closing summary and nothing else.
\<close>

theorem importEntities_skipped_row_no_warning:
  "logs (importEntities ecma262 example_repo 10
      [[Some ''Entity Id'', Some ''Entity Logical Name'', Some ''Type'', Some ''1033''],
       [Some ''{t0}'', None, Some ''DisplayName'', Some ''Lost''],
       [Some ''{t1}'', Some ''account'', Some ''DisplayName'', Some ''Account'']]
      \<lparr>calls = [], logs = []\<rparr>)
    = [(success, ''Entities: 1/1 updated'')]"
  by code_simp

subsection \<open>Export of the Entities sheet followed by its import\<close>























subsection \<open>Site map captions on import\<close>













subsection \<open>Layout caches on import\<close>

text \<open>
  Claim C9, at a form whose tab T1 has no \<open>labels\<close> child of its own and holds the
  section S1, which has one. The Forms Tabs row for T1 is applied first, the Forms
  Sections row for S1 second, both to the cached document of form F1. For the tab,
  \<open>element.querySelector("labels")\<close> finds the section's container, so the tab caption
  "Overview" is written there; the section row then rewrites the same container. The
  document that is flushed holds the section caption only.
\<close>

theorem prepareFormContent_tab_edit_overwritten:
  "calls (importTranslations ecma262 layout_repo 10 (\<lambda>n sh st. st)
     [(''Forms Tabs'',
       [[Some ''Tab Id'', Some ''Entity Logical Name'', Some ''Form Name'', Some ''Form Unique Id'',
         Some ''Form Id'', Some ''1033''],
        [Some ''T1'', Some ''account'', Some ''Information'', Some ''{u1}'', Some ''{F1}'',
         Some ''Overview'']]),
      (''Forms Sections'',
       [[Some ''Section Id'', Some ''Entity Logical Name'', Some ''Form Name'', Some ''Form Unique Id'',
         Some ''Form Id'', Some ''Tab Name'', Some ''1033''],
        [Some ''S1'', Some ''account'', Some ''Information'', Some ''{u1}'', Some ''{F1}'',
         Some ''general'', Some ''Particulars'']])])
   = [GetFormById ''F1'',
      UpdateForm ''F1''
        (Element ''form'' []
           [Element ''tabs'' []
              [Element ''tab'' [(''id'', ''T1''), (''name'', ''general'')]
                 [Element ''columns'' []
                    [Element ''column'' []
                       [Element ''sections'' []
                          [Element ''section'' [(''id'', ''S1''), (''name'', ''details'')]
                             [Element ''labels'' []
                                [Element ''label''
                                   [(''description'', ''Particulars''), (''languagecode'', ''1033'')]
                                   []]]]]]]]]),
      PublishAllCustomizations]"
  by code_simp

text \<open>
  The state of the cached document between the two rows: the tab row alone has replaced
  the section's caption.
\<close>

lemma prepareFormContent_tab_row_alone:
  "formUpdates (prepareFormContent ecma262 layout_repo FormCache ''tab''
       [[Some ''Tab Id'', Some ''Entity Logical Name'', Some ''Form Name'', Some ''Form Unique Id'',
         Some ''Form Id'', Some ''1033''],
        [Some ''T1'', Some ''account'', Some ''Information'', Some ''{u1}'', Some ''{F1}'',
         Some ''Overview'']]
       init_state)
   = [(''F1'',
       Element ''form'' []
         [Element ''tabs'' []
            [Element ''tab'' [(''id'', ''T1''), (''name'', ''general'')]
               [Element ''columns'' []
                  [Element ''column'' []
                     [Element ''sections'' []
                        [Element ''section'' [(''id'', ''S1''), (''name'', ''details'')]
                           [Element ''labels'' []
                              [Element ''label''
                                 [(''description'', ''Overview''), (''languagecode'', ''1033'')]
                                 []]]]]]]]])]"
  by code_simp

text \<open>
  The same two rows on a form whose tab has a \<open>labels\<close> child of its own: each row
  rewrites its own container and the flushed document holds both captions. The
  re-serialisation after each row is not what loses the edit above.
\<close>

lemma prepareFormContent_both_edits_when_tab_has_labels:
  "calls (importTranslations ecma262 labelled_repo 10 (\<lambda>n sh st. st)
     [(''Forms Tabs'',
       [[Some ''Tab Id'', Some ''Entity Logical Name'', Some ''Form Name'', Some ''Form Unique Id'',
         Some ''Form Id'', Some ''1033''],
        [Some ''T1'', Some ''account'', Some ''Information'', Some ''{u1}'', Some ''{F1}'',
         Some ''Overview'']]),
      (''Forms Sections'',
       [[Some ''Section Id'', Some ''Entity Logical Name'', Some ''Form Name'', Some ''Form Unique Id'',
         Some ''Form Id'', Some ''Tab Name'', Some ''1033''],
        [Some ''S1'', Some ''account'', Some ''Information'', Some ''{u1}'', Some ''{F1}'',
         Some ''general'', Some ''Particulars'']])])
   = [GetFormById ''F1'',
      UpdateForm ''F1''
        (Element ''form'' []
           [Element ''tabs'' []
              [Element ''tab'' [(''id'', ''T1''), (''name'', ''general'')]
                 [Element ''labels'' []
                    [Element ''label'' [(''description'', ''Overview''), (''languagecode'', ''1033'')] []],
                  Element ''columns'' []
                    [Element ''column'' []
                       [Element ''sections'' []
                          [Element ''section'' [(''id'', ''S1''), (''name'', ''details'')]
                             [Element ''labels'' []
                                [Element ''label''
                                   [(''description'', ''Particulars''), (''languagecode'', ''1033'')]
                                   []]]]]]]]]),
      PublishAllCustomizations]"
  by code_simp

text \<open>
  The \<open>return\<close> inside the row loop of \<open>prepareFormContent\<close>: a first data row without a
  form id ends the sheet, and the valid row after it is never read, so no form is fetched
  or updated.
\<close>

lemma prepareFormContent_return_ends_sheet:
  "calls (importTranslations ecma262 layout_repo 10 (\<lambda>n sh st. st)
     [(''Forms Sections'',
       [[Some ''Section Id'', Some ''Entity Logical Name'', Some ''Form Name'', Some ''Form Unique Id'',
         Some ''Form Id'', Some ''Tab Name'', Some ''1033''],
        [Some ''S0'', Some ''account'', Some ''Information'', Some ''{u1}'', None, Some ''general'',
         Some ''Lost''],
        [Some ''S1'', Some ''account'', Some ''Information'', Some ''{u1}'', Some ''{F1}'',
         Some ''general'', Some ''Particulars'']])])
   = [PublishAllCustomizations]"
  by code_simp

text \<open>
  Claim C6, at a workbook whose only sheet is SiteMap Areas with one valid row. The row
  callback is suspended on its fetch when \<open>prepareSiteMapContent\<close> returns, so the cache
  is still empty at the \<open>siteMapUpdates.size > 0\<close> test and \<open>applySiteMapUpdates\<close> is
  skipped. The callback resumes while the publish is awaited and patches the cache entry
  it creates then; that entry is never written to the repository.
\<close>

theorem importTranslations_sitemap_entry_never_flushed:
  "calls (importTranslations ecma262 layout_repo 10 (\<lambda>n sh st. st)
     [(''SiteMap Areas'',
       [[Some ''SiteMap Name'', Some ''SiteMap Id'', Some ''Area Id'', Some ''Type'', Some ''1033''],
        [Some ''Main'', Some ''sm1'', Some ''A1'', Some ''Title'', Some ''Sales'']])])
     = [GetSiteMapById ''sm1'', PublishAllCustomizations]
   \<and> siteMapUpdates (importTranslations ecma262 layout_repo 10 (\<lambda>n sh st. st)
     [(''SiteMap Areas'',
       [[Some ''SiteMap Name'', Some ''SiteMap Id'', Some ''Area Id'', Some ''Type'', Some ''1033''],
        [Some ''Main'', Some ''sm1'', Some ''A1'', Some ''Title'', Some ''Sales'']])])
     = [(''sm1'',
         Element ''SiteMap'' []
           [Element ''Area'' [(''Id'', ''A1'')]
              [Element ''Titles'' []
                 [Element ''Title'' [(''LCID'', ''1033''), (''Title'', ''Sales'')] []]]])]"
  by code_simp

text \<open>
  With the forms, whose rows are awaited one by one, the flush does come after the
  sheets: the same run with a Forms Sections sheet fetches the form once and writes it
  once, before the publish.
\<close>

lemma importTranslations_form_flushed_once:
  "calls (importTranslations ecma262 layout_repo 10 (\<lambda>n sh st. st)
     [(''Forms Sections'',
       [[Some ''Section Id'', Some ''Entity Logical Name'', Some ''Form Name'', Some ''Form Unique Id'',
         Some ''Form Id'', Some ''Tab Name'', Some ''1033''],
        [Some ''S1'', Some ''account'', Some ''Information'', Some ''{u1}'', Some ''{F1}'',
         Some ''general'', Some ''Particulars'']])])
   = [GetFormById ''F1'',
      UpdateForm ''F1''
        (Element ''form'' []
           [Element ''tabs'' []
              [Element ''tab'' [(''id'', ''T1''), (''name'', ''general'')]
                 [Element ''columns'' []
                    [Element ''column'' []
                       [Element ''sections'' []
                          [Element ''section'' [(''id'', ''S1''), (''name'', ''details'')]
                             [Element ''labels'' []
                                [Element ''label''
                                   [(''description'', ''Particulars''), (''languagecode'', ''1033'')]
                                   []]]]]]]]]),
      PublishAllCustomizations]"
  by code_simp

text \<open>
  Two rows of the first site map sheet for the same site map, followed by a sheet whose
  import waits for the repository. Neither callback finds the site map cached, so each
  starts its own fetch; on resuming, each stores the document it fetched, and the second
  replaces the entry the first has patched. The site map is written once, with the
  Description row's caption and without the Title row's.
\<close>

lemma prepareSiteMapContent_second_row_discards_first:
  "calls (importTranslations ecma262 layout_repo 10 (\<lambda>n sh st. st)
     [(''SiteMap Areas'',
       [[Some ''SiteMap Name'', Some ''SiteMap Id'', Some ''Area Id'', Some ''Type'', Some ''1033''],
        [Some ''Main'', Some ''sm1'', Some ''A1'', Some ''Title'', Some ''Sales''],
        [Some ''Main'', Some ''sm1'', Some ''A1'', Some ''Description'', Some ''Selling'']]),
      (''Forms Sections'',
       [[Some ''Section Id'', Some ''Entity Logical Name'', Some ''Form Name'', Some ''Form Unique Id'',
         Some ''Form Id'', Some ''Tab Name'', Some ''1033''],
        [Some ''S1'', Some ''account'', Some ''Information'', Some ''{u1}'', Some ''{F1}'',
         Some ''general'', Some ''Particulars'']])])
   = [GetSiteMapById ''sm1'', GetSiteMapById ''sm1'', GetFormById ''F1'',
      UpdateForm ''F1''
        (Element ''form'' []
           [Element ''tabs'' []
              [Element ''tab'' [(''id'', ''T1''), (''name'', ''general'')]
                 [Element ''columns'' []
                    [Element ''column'' []
                       [Element ''sections'' []
                          [Element ''section'' [(''id'', ''S1''), (''name'', ''details'')]
                             [Element ''labels'' []
                                [Element ''label''
                                   [(''description'', ''Particulars''), (''languagecode'', ''1033'')]
                                   []]]]]]]]]),
      UpdateSiteMap ''sm1''
        (Element ''SiteMap'' []
           [Element ''Area'' [(''Id'', ''A1'')]
              [Element ''Descriptions'' []
                 [Element ''Description'' [(''LCID'', ''1033''), (''Description'', ''Selling'')] []]]]),
      PublishAllCustomizations]"
  by code_simp

end
